theory Spec2Isabelle
  imports Complex_Main
begin

section \<open>Arithmetic of the model\<close>

text \<open>
  The sources compute with C++ \<^verbatim>\<open>double\<close>.  The embedding reads every \<^verbatim>\<open>double\<close> as a
  real number: \<open>+\<close>, \<open>-\<close>, \<open>*\<close> and \<open>/\<close> are the exact operations, there is no rounding, no
  overflow, no infinity and no NaN, and HOL gives \<open>x / 0 = 0\<close>.  Most theorems below equate
  a result of the code with the expression that computes it, operation by operation, so
  that both sides round alike.  The theorems on the allocation weights and on the boundary
  of the landscape model state inequalities and zeros; their hypotheses keep every divisor
  away from zero and every intermediate result within bounds that rounding cannot cross.
\<close>

type_synonym VecType = "real list"

text \<open>
  \<^verbatim>\<open>std::pow\<close> on the reals.  The cases follow the C library: any base to the power zero is
  one, a positive base is the real power, zero to a positive power is zero, a negative base
  to an integral power is the integral power.  Zero to a negative power (a pole, \<open>+inf\<close> in C)
  and a negative base to a non-integral power (a domain error, NaN in C) have no real value;
  the model returns \<open>0\<close> there.  The theorems below either hold whatever this value is or
  keep their arguments away from these two cases.
\<close>

definition std_pow :: "real \<Rightarrow> real \<Rightarrow> real" where
  "std_pow x y =
     (if y = 0 then 1
      else if 0 < x then x powr y
      else if x = 0 then 0
      else if y \<in> \<int> then x powi \<lfloor>y\<rfloor>
      else 0)"

section \<open>Single plant, constant input\<close>

text \<open>
  Class \<^verbatim>\<open>OnePlantSystemFunction\<close>.  The fields carry the prefix \<open>op_\<close> because the fields
  of all records of a theory share one name space and the three system classes of the
  sources use the same member names.
\<close>

record OnePlantSystemFunction =
  op_m :: real
  op_R :: real
  op_d_yp :: real
  op_d_b0 :: real
  op_d_bp :: real
  op_g_yp :: real
  op_g_b0 :: real
  op_g_bp :: real
  op_L_0 :: real
  op_P_max :: real
  op_q :: real
  op_s_0_h :: real
  op_h :: real
  op_f_0_u :: real
  op_F_tilde :: real
  op_u :: real

text \<open>The constructor: it caches \<open>s_0^h\<close> and \<open>f_0^u\<close>.\<close>

definition OnePlantSystemFunction_init ::
  "real \<Rightarrow> real \<Rightarrow> real \<Rightarrow> real \<Rightarrow> real \<Rightarrow> real \<Rightarrow> real \<Rightarrow> real \<Rightarrow> real \<Rightarrow> real \<Rightarrow> real
    \<Rightarrow> real \<Rightarrow> real \<Rightarrow> real \<Rightarrow> real \<Rightarrow> real \<Rightarrow> OnePlantSystemFunction" where
  "OnePlantSystemFunction_init m R d_yp d_b0 d_bp g_yp g_b0 g_bp L_0 P_max q
      s_0 h f_0 F_tilde u =
     \<lparr> op_m = m, op_R = R, op_d_yp = d_yp, op_d_b0 = d_b0, op_d_bp = d_bp,
       op_g_yp = g_yp, op_g_b0 = g_b0, op_g_bp = g_bp, op_L_0 = L_0,
       op_P_max = P_max, op_q = q, op_s_0_h = std_pow s_0 h, op_h = h,
       op_f_0_u = std_pow f_0 u, op_F_tilde = F_tilde, op_u = u \<rparr>"

text \<open>
  \<^verbatim>\<open>OnePlantSystemFunction::operator()\<close>.  The C++ function writes the three derivatives
  into the caller's \<^verbatim>\<open>dxdt\<close>; the model takes \<open>dxdt\<close> and returns it updated.
\<close>

definition OnePlant_call ::
  "OnePlantSystemFunction \<Rightarrow> VecType \<Rightarrow> VecType \<Rightarrow> real \<Rightarrow> VecType" where
  "OnePlant_call sys x dxdt t =
     (let Y = x ! 0;
          B = x ! 1;
          N = x ! 2;
          F = Y + B + N;
          FF_u = std_pow (F / (F + op_F_tilde sys)) (op_u sys);
          phi = FF_u / (op_f_0_u sys + FF_u);
          psi = op_s_0_h sys / (op_s_0_h sys + std_pow (B / F) (op_h sys));
          P = op_P_max sys * (op_q sys * psi + (1 - op_q sys) * phi);
          PF = P / F;
          Lambda = PF / (op_L_0 sys + PF);
          gamma_y = op_g_yp sys * Lambda;
          gamma_b = op_g_b0 sys + op_g_bp sys * Lambda;
          delta_y = op_d_yp sys * Lambda;
          delta_b = op_d_b0 sys + op_d_bp sys * Lambda;
          disp_y = delta_y * Y / F + gamma_y;
          disp_b = delta_b * B / F + gamma_b;
          dYdt = disp_y * N - op_m sys * Y;
          dBdt = disp_b * N - op_m sys * B;
          dNdt = op_R sys - N * (op_m sys + disp_y + disp_b)
      in dxdt[0 := dYdt, 1 := dBdt, 2 := dNdt])"

section \<open>Single plant, seasonal input\<close>

text \<open>Class \<^verbatim>\<open>OnePlantSeasonSystemFunction\<close>, fields with the prefix \<open>os_\<close>.\<close>

record OnePlantSeasonSystemFunction =
  os_m :: real
  os_d_yp :: real
  os_d_b0 :: real
  os_d_bp :: real
  os_g_yp :: real
  os_g_b0 :: real
  os_g_bp :: real
  os_L_0 :: real
  os_P_max :: real
  os_q :: real
  os_s_0_h :: real
  os_h :: real
  os_f_0_u :: real
  os_F_tilde :: real
  os_u :: real
  os_R_hat :: real
  os_t0 :: real
  os_k :: real
  os_lambda :: real

definition OnePlantSeasonSystemFunction_init ::
  "real \<Rightarrow> real \<Rightarrow> real \<Rightarrow> real \<Rightarrow> real \<Rightarrow> real \<Rightarrow> real \<Rightarrow> real \<Rightarrow> real \<Rightarrow> real
    \<Rightarrow> real \<Rightarrow> real \<Rightarrow> real \<Rightarrow> real \<Rightarrow> real \<Rightarrow> real \<Rightarrow> real \<Rightarrow> real \<Rightarrow> real
    \<Rightarrow> OnePlantSeasonSystemFunction" where
  "OnePlantSeasonSystemFunction_init m d_yp d_b0 d_bp g_yp g_b0 g_bp L_0 P_max q
      s_0 h f_0 F_tilde u R_hat t0 k lambda =
     \<lparr> os_m = m, os_d_yp = d_yp, os_d_b0 = d_b0, os_d_bp = d_bp,
       os_g_yp = g_yp, os_g_b0 = g_b0, os_g_bp = g_bp, os_L_0 = L_0,
       os_P_max = P_max, os_q = q, os_s_0_h = std_pow s_0 h, os_h = h,
       os_f_0_u = std_pow f_0 u, os_F_tilde = F_tilde, os_u = u,
       os_R_hat = R_hat, os_t0 = t0, os_k = k, os_lambda = lambda \<rparr>"

text \<open>The Weibull resource term, the first statement of the seasonal \<^verbatim>\<open>operator()\<close>.\<close>

definition season_R :: "OnePlantSeasonSystemFunction \<Rightarrow> real \<Rightarrow> real" where
  "season_R sys t =
     os_R_hat sys * (os_k sys / os_lambda sys)
       * std_pow ((t + os_t0 sys) / os_lambda sys) (os_k sys - 1)
       * exp (-1 * std_pow ((t + os_t0 sys) / os_lambda sys) (os_k sys))"

definition OnePlantSeason_call ::
  "OnePlantSeasonSystemFunction \<Rightarrow> VecType \<Rightarrow> VecType \<Rightarrow> real \<Rightarrow> VecType" where
  "OnePlantSeason_call sys x dxdt t =
     (let Y = x ! 0;
          B = x ! 1;
          N = x ! 2;
          R = season_R sys t;
          F = Y + B + N;
          FF_u = std_pow (F / (F + os_F_tilde sys)) (os_u sys);
          phi = FF_u / (os_f_0_u sys + FF_u);
          psi = os_s_0_h sys / (os_s_0_h sys + std_pow (B / F) (os_h sys));
          P = os_P_max sys * (os_q sys * psi + (1 - os_q sys) * phi);
          PF = P / F;
          Lambda = PF / (os_L_0 sys + PF);
          gamma_y = os_g_yp sys * Lambda;
          gamma_b = os_g_b0 sys + os_g_bp sys * Lambda;
          delta_y = os_d_yp sys * Lambda;
          delta_b = os_d_b0 sys + os_d_bp sys * Lambda;
          disp_y = delta_y * Y / F + gamma_y;
          disp_b = delta_b * B / F + gamma_b;
          dYdt = disp_y * N - os_m sys * Y;
          dBdt = disp_b * N - os_m sys * B;
          dNdt = R - N * (os_m sys + disp_y + disp_b)
      in dxdt[0 := dYdt, 1 := dBdt, 2 := dNdt])"

section \<open>Observer and fixed-step integrator\<close>

text \<open>
  \<^verbatim>\<open>OnePlantObserver\<close>: two parallel vectors, and an \<^verbatim>\<open>operator()\<close> that appends a copy of
  the state and the time.  The seasonal and the landscape entry points use the template
  \<^verbatim>\<open>Observer<C>\<close> of \<^verbatim>\<open>ode.h\<close>; the record is polymorphic in the state and serves for both.
\<close>

record 'x Observer =
  obs_data :: "'x list"
  obs_time :: "real list"

definition Observer_init :: "'x Observer" where
  "Observer_init = \<lparr> obs_data = [], obs_time = [] \<rparr>"

definition observe :: "'x Observer \<Rightarrow> 'x \<Rightarrow> real \<Rightarrow> 'x Observer" where
  "observe obs x t = obs\<lparr> obs_data := obs_data obs @ [x], obs_time := obs_time obs @ [t] \<rparr>"

text \<open>
  A system function as the integrator sees it: called with its own object (the landscape
  system keeps a weights vector between calls), the state and the time, it returns the
  object after the call and the derivative.  A stepper advances the state by one step of
  size \<open>dt\<close>, calling the system function.
\<close>

type_synonym ('s, 'x) system_fn = "'s \<Rightarrow> 'x \<Rightarrow> real \<Rightarrow> 's \<times> 'x"

type_synonym ('s, 'x) stepper = "('s, 'x) system_fn \<Rightarrow> 's \<Rightarrow> 'x \<Rightarrow> real \<Rightarrow> real \<Rightarrow> 's \<times> 'x"

text \<open>
  Modelled from the spec: the fixed-step integrator, called as \<^verbatim>\<open>integrate_const\<close> with a stepper
  type of \<^verbatim>\<open>ode.h\<close>; neither is among the sources.  The spec (4.4, 4.5, 8) has it start at
  time \<open>0\<close>, take "repeated fixed-size forward steps until the horizon is reached", call
  the observer "once per completed step with the resulting (time, state) pair", and
  produce samples "starting at 0 and ending at or just past max_t".  So the loop takes a
  step while the current time is before the end time; the time after \<open>step\<close> steps is
  \<open>start_time + step * dt\<close>; every completed step is recorded with its time and state.
  The loop does not end when \<open>dt \<le> 0\<close> and the start time is before the end time, so the
  result is an option and \<open>None\<close> is a run that never returns.
\<close>

partial_function (option) integrate_loop ::
  "('s, 'x) stepper \<Rightarrow> ('s, 'x) system_fn \<Rightarrow> real \<Rightarrow> real \<Rightarrow> real
    \<Rightarrow> 's \<Rightarrow> 'x \<Rightarrow> 'x Observer \<Rightarrow> nat \<Rightarrow> ('s \<times> 'x \<times> 'x Observer \<times> nat) option" where
  "integrate_loop st system start_time end_time dt s x obs step =
     (let time = start_time + real step * dt
      in if time < end_time
         then (case st system s x time dt of
                 (s', x') \<Rightarrow>
                   integrate_loop st system start_time end_time dt s' x'
                     (observe obs x' (start_time + real (Suc step) * dt)) (Suc step))
         else Some (s, x, obs, step))"

text \<open>
  Modelled from the spec: the absent integrator as the entry points call it, with the
  stepper, the system, the state, the start time, the end time, the step size and the
  observer.  The samples start at time \<open>0\<close> and a step size equal to the horizon gives
  "exactly one recorded step beyond t=0" (spec 8), so the initial state is the first
  sample, at the start time; the last component of the result is the number of steps taken.
\<close>

definition integrate_const ::
  "('s, 'x) stepper \<Rightarrow> ('s, 'x) system_fn \<Rightarrow> 's \<Rightarrow> 'x \<Rightarrow> real \<Rightarrow> real \<Rightarrow> real
    \<Rightarrow> 'x Observer \<Rightarrow> ('s \<times> 'x \<times> 'x Observer \<times> nat) option" where
  "integrate_const st system s x start_time end_time dt obs =
     integrate_loop st system start_time end_time dt s x (observe obs x start_time) 0"

text \<open>
  Modelled from the spec: the stepping scheme (\<^verbatim>\<open>VecStepperType\<close> and \<^verbatim>\<open>MatStepperType\<close> of
  \<^verbatim>\<open>ode.h\<close>, not among the sources).  The spec (4.4) asks for an explicit scheme "(e.g., a
  classical 4th-order fixed-step method)" that evaluates the dynamics function at internal
  stages and is "parameterized only by how to add/scale state objects".  The model is the
  explicit Runge-Kutta step of an arbitrary tableau: a list of stages \<open>(c, as)\<close>, each
  evaluating the system at \<open>x + dt * \<Sum> as\<^sub>j * k\<^sub>j\<close> and time \<open>t + c * dt\<close>, and the weights
  \<open>bs\<close> of the final combination.
\<close>

type_synonym tableau = "(real \<times> real list) list \<times> real list"

text \<open>
  Modelled from the spec: the state \<open>x + dt * \<Sum> as\<^sub>j * k\<^sub>j\<close> of the absent stepper, built
  with the addition and the scaling of the state type.
\<close>

definition rk_combine ::
  "('x \<Rightarrow> 'x \<Rightarrow> 'x) \<Rightarrow> (real \<Rightarrow> 'x \<Rightarrow> 'x) \<Rightarrow> 'x \<Rightarrow> real \<Rightarrow> real list \<Rightarrow> 'x list \<Rightarrow> 'x" where
  "rk_combine add scale x dt as ks =
     foldl (\<lambda>acc (a, k). add acc (scale (dt * a) k)) x (zip as ks)"

text \<open>
  Modelled from the spec: the stages of the absent stepper, one call of the system function
  each, the system object passed from call to call.
\<close>

fun rk_stages ::
  "('x \<Rightarrow> 'x \<Rightarrow> 'x) \<Rightarrow> (real \<Rightarrow> 'x \<Rightarrow> 'x) \<Rightarrow> ('s, 'x) system_fn \<Rightarrow> 'x \<Rightarrow> real \<Rightarrow> real
    \<Rightarrow> (real \<times> real list) list \<Rightarrow> 's \<Rightarrow> 'x list \<Rightarrow> 's \<times> 'x list" where
  "rk_stages add scale system x t dt [] s ks = (s, ks)"
| "rk_stages add scale system x t dt ((c, as) # stages) s ks =
     (case system s (rk_combine add scale x dt as ks) (t + c * dt) of
        (s', k) \<Rightarrow> rk_stages add scale system x t dt stages s' (ks @ [k]))"

text \<open>
  Modelled from the spec: \<^verbatim>\<open>do_step\<close> of the absent stepper, the stages and then the final
  combination.
\<close>

definition rk_do_step ::
  "('x \<Rightarrow> 'x \<Rightarrow> 'x) \<Rightarrow> (real \<Rightarrow> 'x \<Rightarrow> 'x) \<Rightarrow> tableau \<Rightarrow> ('s, 'x) stepper" where
  "rk_do_step add scale tab system s x t dt =
     (case rk_stages add scale system x t dt (fst tab) s [] of
        (s', ks) \<Rightarrow> (s', rk_combine add scale x dt (snd tab) ks))"

text \<open>
  Modelled from the spec: the tableau of the "classical 4th-order fixed-step method" that
  the spec names as its example of the absent stepper.
\<close>

definition rk4_tableau :: tableau where
  "rk4_tableau =
     ([(0, []), (1/2, [1/2]), (1/2, [0, 1/2]), (1, [0, 0, 1])], [1/6, 1/3, 1/3, 1/6])"

text \<open>
  Modelled from the spec: "how to add/scale state objects" for the absent stepper, on
  \<^verbatim>\<open>VecType\<close>.
\<close>

definition vec_add :: "VecType \<Rightarrow> VecType \<Rightarrow> VecType" where
  "vec_add x y = map2 (+) x y"

text \<open>
  Modelled from the spec: the scaling of a \<^verbatim>\<open>VecType\<close> state for the absent stepper.
\<close>

definition vec_scale :: "real \<Rightarrow> VecType \<Rightarrow> VecType" where
  "vec_scale a x = map ((*) a) x"

section \<open>Entry points of the single-plant models\<close>

text \<open>\<^verbatim>\<open>Rcpp::NumericMatrix\<close>: its dimensions, its column names and its rows.\<close>

record NumericMatrix =
  nrow :: nat
  ncol :: nat
  colnames :: "string list"
  cells :: "real list list"

definition NumericMatrix_init :: "nat \<Rightarrow> nat \<Rightarrow> NumericMatrix" where
  "NumericMatrix_init r c = \<lparr> nrow = r, ncol = c, colnames = [], cells = replicate r (replicate c 0) \<rparr>"

text \<open>The system objects as the stepper calls them, with a derivative buffer of the state's size.\<close>

definition OnePlant_system :: "(OnePlantSystemFunction, VecType) system_fn" where
  "OnePlant_system sys x t = (sys, OnePlant_call sys x (replicate (length x) 0) t)"

definition OnePlantSeason_system :: "(OnePlantSeasonSystemFunction, VecType) system_fn" where
  "OnePlantSeason_system sys x t = (sys, OnePlantSeason_call sys x (replicate (length x) 0) t)"

text \<open>
  The output loop of \<^verbatim>\<open>one_plant_ode\<close>, one row per recorded sample: the time, the state and
  the column \<^verbatim>\<open>P\<close>, computed from \<^verbatim>\<open>F_u = std::pow(F, u)\<close>.
\<close>

definition one_plant_ode_row ::
  "VecType Observer \<Rightarrow> nat \<Rightarrow> real \<Rightarrow> real \<Rightarrow> real \<Rightarrow> real \<Rightarrow> real \<Rightarrow> real \<Rightarrow> nat \<Rightarrow> real list" where
  "one_plant_ode_row obs x_size P_max q s_0_h h f_0_u u i =
     (let F = foldl (\<lambda>F j. F + obs_data obs ! i ! j) 0 [0..<x_size];
          F_u = std_pow F u;
          phi = F_u / (f_0_u + F_u);
          psi = s_0_h / (s_0_h + std_pow (obs_data obs ! i ! 1 / F) h)
      in [obs_time obs ! i] @ map (\<lambda>j. obs_data obs ! i ! j) [0..<x_size]
           @ [P_max * (q * psi + (1 - q) * phi)])"

definition one_plant_ode ::
  "(OnePlantSystemFunction, VecType) stepper \<Rightarrow>
   real \<Rightarrow> real \<Rightarrow> real \<Rightarrow> real \<Rightarrow> real \<Rightarrow> real \<Rightarrow> real \<Rightarrow> real \<Rightarrow> real \<Rightarrow> real \<Rightarrow> real
    \<Rightarrow> real \<Rightarrow> real \<Rightarrow> real \<Rightarrow> real \<Rightarrow> real \<Rightarrow> real \<Rightarrow> real \<Rightarrow> real \<Rightarrow> real \<Rightarrow> real
    \<Rightarrow> NumericMatrix option" where
  "one_plant_ode st m R d_yp d_b0 d_bp g_yp g_b0 g_bp L_0 P_max q s_0 h f_0 F_tilde u
      dt max_t Y0 B0 N0 =
     (let x = (replicate 3 0)[0 := Y0, 1 := B0, 2 := N0];
          obs = Observer_init;
          system = OnePlantSystemFunction_init m R d_yp d_b0 d_bp g_yp g_b0 g_bp
                     L_0 P_max q s_0 h f_0 F_tilde u
      in case integrate_const st OnePlant_system system x 0 max_t dt obs of
           None \<Rightarrow> None
         | Some (system', x', obs', steps) \<Rightarrow>
             (let n_steps = length (obs_data obs');
                  f_0_u = std_pow f_0 u;
                  s_0_h = std_pow s_0 h
              in Some \<lparr> nrow = n_steps, ncol = length x' + 2,
                        colnames = [''t'', ''Y'', ''B'', ''N'', ''P''],
                        cells = map (one_plant_ode_row obs' (length x') P_max q s_0_h h f_0_u u)
                                  [0..<n_steps] \<rparr>))"

text \<open>
  The output loop of \<^verbatim>\<open>one_plant_season_ode\<close>; here the column \<^verbatim>\<open>P\<close> is computed from
  \<^verbatim>\<open>FF_u = std::pow(F / (F + F_tilde), u)\<close>.
\<close>

definition one_plant_season_ode_row ::
  "VecType Observer \<Rightarrow> nat \<Rightarrow> real \<Rightarrow> real \<Rightarrow> real \<Rightarrow> real \<Rightarrow> real \<Rightarrow> real \<Rightarrow> real \<Rightarrow> nat
    \<Rightarrow> real list" where
  "one_plant_season_ode_row obs x_size P_max q s_0_h h f_0_u F_tilde u i =
     (let F = foldl (\<lambda>F j. F + obs_data obs ! i ! j) 0 [0..<x_size];
          FF_u = std_pow (F / (F + F_tilde)) u;
          phi = FF_u / (f_0_u + FF_u);
          psi = s_0_h / (s_0_h + std_pow (obs_data obs ! i ! 1 / F) h)
      in [obs_time obs ! i] @ map (\<lambda>j. obs_data obs ! i ! j) [0..<x_size]
           @ [P_max * (q * psi + (1 - q) * phi)])"

definition one_plant_season_ode ::
  "(OnePlantSeasonSystemFunction, VecType) stepper \<Rightarrow>
   real \<Rightarrow> real \<Rightarrow> real \<Rightarrow> real \<Rightarrow> real \<Rightarrow> real \<Rightarrow> real \<Rightarrow> real \<Rightarrow> real \<Rightarrow> real
    \<Rightarrow> real \<Rightarrow> real \<Rightarrow> real \<Rightarrow> real \<Rightarrow> real \<Rightarrow> real \<Rightarrow> real \<Rightarrow> real \<Rightarrow> real
    \<Rightarrow> real \<Rightarrow> real \<Rightarrow> real \<Rightarrow> real \<Rightarrow> real
    \<Rightarrow> NumericMatrix option" where
  "one_plant_season_ode st m d_yp d_b0 d_bp g_yp g_b0 g_bp L_0 P_max q s_0 h f_0 F_tilde u
      R_hat t0 k lambda dt max_t Y0 B0 N0 =
     (let x = (replicate 3 0)[0 := Y0, 1 := B0, 2 := N0];
          obs = Observer_init;
          system = OnePlantSeasonSystemFunction_init m d_yp d_b0 d_bp g_yp g_b0 g_bp
                     L_0 P_max q s_0 h f_0 F_tilde u R_hat t0 k lambda
      in case integrate_const st OnePlantSeason_system system x 0 max_t dt obs of
           None \<Rightarrow> None
         | Some (system', x', obs', steps) \<Rightarrow>
             (let n_steps = length (obs_data obs');
                  f_0_u = std_pow f_0 u;
                  s_0_h = std_pow s_0 h
              in Some \<lparr> nrow = n_steps, ncol = length x' + 2,
                        colnames = [''t'', ''Y'', ''B'', ''N'', ''P''],
                        cells = map (one_plant_season_ode_row obs' (length x') P_max q s_0_h h
                                       f_0_u F_tilde u)
                                  [0..<n_steps] \<rparr>))"

section \<open>Landscape of plants with constant flower totals\<close>

text \<open>
  \<^verbatim>\<open>MatType\<close> is a matrix of \<open>n_plants\<close> rows and two columns; row \<open>i\<close> is the pair
  \<open>(x(i,0), x(i,1))\<close>, the proportions \<open>Y\<close> and \<open>B\<close> of plant \<open>i\<close>.
\<close>

type_synonym MatType = "(real \<times> real) list"

text \<open>
  Modelled from the spec: "how to add/scale state objects" for the absent stepper, on
  \<^verbatim>\<open>MatType\<close>.
\<close>

definition mat_add :: "MatType \<Rightarrow> MatType \<Rightarrow> MatType" where
  "mat_add x y = map2 (\<lambda>(a, b) (c, d). (a + c, b + d)) x y"

text \<open>
  Modelled from the spec: the scaling of a \<^verbatim>\<open>MatType\<close> state for the absent stepper.
\<close>

definition mat_scale :: "real \<Rightarrow> MatType \<Rightarrow> MatType" where
  "mat_scale a x = map (\<lambda>(y, b). (a * y, a * b)) x"

text \<open>Class \<^verbatim>\<open>LandConstFSystemFunction\<close>, fields with the prefix \<open>lc_\<close>.\<close>

record LandConstFSystemFunction =
  lc_m :: "real list"
  lc_d_yp :: "real list"
  lc_d_b0 :: "real list"
  lc_d_bp :: "real list"
  lc_g_yp :: "real list"
  lc_g_b0 :: "real list"
  lc_g_bp :: "real list"
  lc_L_0 :: "real list"
  lc_u :: real
  lc_X :: real
  lc_n_plants :: nat
  lc_weights :: "real list"

definition LandConstFSystemFunction_init ::
  "real list \<Rightarrow> real list \<Rightarrow> real list \<Rightarrow> real list \<Rightarrow> real list \<Rightarrow> real list
    \<Rightarrow> real list \<Rightarrow> real list \<Rightarrow> real \<Rightarrow> real \<Rightarrow> LandConstFSystemFunction" where
  "LandConstFSystemFunction_init m d_yp d_b0 d_bp g_yp g_b0 g_bp L_0 u X =
     \<lparr> lc_m = m, lc_d_yp = d_yp, lc_d_b0 = d_b0, lc_d_bp = d_bp,
       lc_g_yp = g_yp, lc_g_b0 = g_b0, lc_g_bp = g_bp, lc_L_0 = L_0,
       lc_u = u, lc_X = X, lc_n_plants = length m,
       lc_weights = replicate (length m) 0 \<rparr>"

text \<open>\<^verbatim>\<open>std::vector::resize\<close>: cut, or fill with zeros.\<close>

definition resize :: "nat \<Rightarrow> real list \<Rightarrow> real list" where
  "resize n v = take n v @ replicate (n - length v) 0"

text \<open>
  \<^verbatim>\<open>make_weights\<close>: the first loop stores the raw weight of every plant and adds it to
  \<open>wt_sum\<close>, the second divides every entry by \<open>X + wt_sum\<close>.  The function returns the
  vector it was given, updated.
\<close>

definition make_weights :: "LandConstFSystemFunction \<Rightarrow> real list \<Rightarrow> MatType \<Rightarrow> real list" where
  "make_weights sys wts_vec x =
     (let wts_vec = (if length wts_vec \<noteq> lc_n_plants sys
                     then resize (lc_n_plants sys) wts_vec else wts_vec);
          (wts_vec, wt_sum) =
             fold (\<lambda>i (wts_vec, wt_sum).
                     let YN = 1 - snd (x ! i);
                         wts_vec = wts_vec[i := std_pow YN (lc_u sys)]
                     in (wts_vec, wt_sum + wts_vec ! i))
                  [0..<lc_n_plants sys] (wts_vec, 0)
      in map (\<lambda>w. w / (lc_X sys + wt_sum)) wts_vec)"

text \<open>\<^verbatim>\<open>one_plant\<close>: the derivative of plant \<open>i\<close>, written into row \<open>i\<close> of \<open>dxdt\<close>.\<close>

definition one_plant :: "LandConstFSystemFunction \<Rightarrow> nat \<Rightarrow> MatType \<Rightarrow> MatType \<Rightarrow> real \<Rightarrow> MatType" where
  "one_plant sys i x dxdt t =
     (let Y = fst (x ! i);
          B = snd (x ! i);
          N = 1 - Y - B;
          P = lc_weights sys ! i;
          Lambda = P / (lc_L_0 sys ! i + P);
          gamma_y = lc_g_yp sys ! i * Lambda;
          gamma_b = lc_g_b0 sys ! i + lc_g_bp sys ! i * Lambda;
          delta_y = lc_d_yp sys ! i * Lambda;
          delta_b = lc_d_b0 sys ! i + lc_d_bp sys ! i * Lambda;
          disp_y = delta_y * Y + gamma_y;
          disp_b = delta_b * B + gamma_b;
          dYdt = disp_y * N - lc_m sys ! i * Y;
          dBdt = disp_b * N - lc_m sys ! i * B
      in dxdt[i := (dYdt, dBdt)])"

text \<open>
  \<^verbatim>\<open>LandConstFSystemFunction::operator()\<close>: it overwrites the member \<open>weights\<close> and then
  fills \<open>dxdt\<close> plant by plant.  The model returns the object after the call and \<open>dxdt\<close>.
\<close>

definition LandConstF_call ::
  "LandConstFSystemFunction \<Rightarrow> MatType \<Rightarrow> MatType \<Rightarrow> real \<Rightarrow> LandConstFSystemFunction \<times> MatType" where
  "LandConstF_call sys x dxdt t =
     (let sys = sys\<lparr> lc_weights := make_weights sys (lc_weights sys) x \<rparr>
      in (sys, fold (\<lambda>i dxdt. one_plant sys i x dxdt t) [0..<lc_n_plants sys] dxdt))"

definition LandConstF_system :: "(LandConstFSystemFunction, MatType) system_fn" where
  "LandConstF_system sys x t = LandConstF_call sys x (replicate (length x) (0, 0)) t"

text \<open>
  Modelled from the spec: \<^verbatim>\<open>len_check\<close>, declared outside the sources.  The spec (7) has the
  validation "check per-plant parameter vector lengths against the plant count" and "report
  a dimension-mismatch condition"; the call sites pass the flag \<open>err\<close> by reference, so the
  model returns the flag, set when the length of the vector differs from \<open>np\<close>.
\<close>

definition len_check :: "bool \<Rightarrow> real list \<Rightarrow> string \<Rightarrow> nat \<Rightarrow> bool" where
  "len_check err vec name np = (if length vec \<noteq> np then True else err)"

text \<open>
  The output loop of \<^verbatim>\<open>landscape_constantF_ode\<close>: for every recorded sample the weights are
  made again from the recorded matrix (into the vector \<open>wts\<close>, which lives across the
  iterations), and every plant gets a row: time, plant index, \<open>Y\<close>, \<open>B\<close> and its weight.
\<close>

definition landscape_rows ::
  "LandConstFSystemFunction \<Rightarrow> MatType Observer \<Rightarrow> nat \<Rightarrow> nat \<Rightarrow> real list list" where
  "landscape_rows system obs np n_steps =
     snd (fold (\<lambda>t (wts, out).
                  let wts = make_weights system wts (obs_data obs ! t)
                  in (wts, out @ map (\<lambda>k. [obs_time obs ! t, real k,
                                             fst (obs_data obs ! t ! k),
                                             snd (obs_data obs ! t ! k),
                                             wts ! k]) [0..<np]))
               [0..<n_steps] (replicate np 0, []))"

text \<open>
  The result of the entry point together with the number of steps the integrator took
  (the value \<^verbatim>\<open>integrate_const\<close> returns, \<open>0\<close> when it was not called).
\<close>

record landscape_result =
  matrix :: NumericMatrix
  steps_taken :: nat

definition landscape_constantF_ode ::
  "(LandConstFSystemFunction, MatType) stepper \<Rightarrow>
   real list \<Rightarrow> real list \<Rightarrow> real list \<Rightarrow> real list \<Rightarrow> real list \<Rightarrow> real list
    \<Rightarrow> real list \<Rightarrow> real list \<Rightarrow> real \<Rightarrow> real \<Rightarrow> real list \<Rightarrow> real list \<Rightarrow> real \<Rightarrow> real
    \<Rightarrow> landscape_result option" where
  "landscape_constantF_ode st m d_yp d_b0 d_bp g_yp g_b0 g_bp L_0 u X Y0 B0 dt max_t =
     (let np = length m;
          err = False;
          err = len_check err d_yp ''d_yp'' np;
          err = len_check err d_b0 ''d_b0'' np;
          err = len_check err d_bp ''d_bp'' np;
          err = len_check err g_yp ''g_yp'' np;
          err = len_check err g_b0 ''g_b0'' np;
          err = len_check err g_bp ''g_bp'' np;
          err = len_check err L_0 ''L_0'' np;
          err = len_check err Y0 ''Y0'' np;
          err = len_check err B0 ''B0'' np
      in if err then Some \<lparr> matrix = NumericMatrix_init 0 0, steps_taken = 0 \<rparr>
         else
          (let n_states = 2;
               x = map (\<lambda>i. (Y0 ! i, B0 ! i)) [0..<np];
               obs = Observer_init;
               system = LandConstFSystemFunction_init m d_yp d_b0 d_bp g_yp g_b0 g_bp L_0 u X
           in case integrate_const st LandConstF_system system x 0 max_t dt obs of
                None \<Rightarrow> None
              | Some (system', x', obs', steps) \<Rightarrow>
                  (let n_steps = length (obs_data obs')
                   in Some \<lparr> matrix =
                               \<lparr> nrow = n_steps * np, ncol = n_states + 3,
                                 colnames = [''t'', ''p'', ''Y'', ''B'', ''P''],
                                 cells = landscape_rows system' obs' np n_steps \<rparr>,
                             steps_taken = steps \<rparr>)))"

section \<open>Auxiliary functions of the proofs\<close>

text \<open>The raw weight that the first loop of \<^verbatim>\<open>make_weights\<close> stores for plant \<open>i\<close>.\<close>

definition raw_weight :: "LandConstFSystemFunction \<Rightarrow> MatType \<Rightarrow> nat \<Rightarrow> real" where
  "raw_weight sys x i = std_pow (1 - snd (x ! i)) (lc_u sys)"

text \<open>The row that \<^verbatim>\<open>one_plant\<close> writes for plant \<open>i\<close>.\<close>

definition plant_deriv :: "LandConstFSystemFunction \<Rightarrow> MatType \<Rightarrow> real \<Rightarrow> nat \<Rightarrow> real \<times> real" where
  "plant_deriv sys x t i = one_plant sys i x (replicate (Suc i) (0, 0)) t ! i"




text \<open>
  The pairs of system object and state that the loop of \<^verbatim>\<open>integrate_const\<close> passes through
  when it takes \<open>r\<close> more steps from step number \<open>step\<close>, and the number of steps the loop
  takes for a positive \<open>dt\<close>.
\<close>

fun visited ::
  "('s, 'x) stepper \<Rightarrow> ('s, 'x) system_fn \<Rightarrow> real \<Rightarrow> real \<Rightarrow> 's \<Rightarrow> 'x \<Rightarrow> nat \<Rightarrow> nat \<Rightarrow> ('s \<times> 'x) list" where
  "visited st system start_time dt s x step 0 = [(s, x)]"
| "visited st system start_time dt s x step (Suc r) =
     (s, x) # (case st system s x (start_time + real step * dt) dt of
                 (s', x') \<Rightarrow> visited st system start_time dt s' x' (Suc step) r)"

definition step_count :: "real \<Rightarrow> real \<Rightarrow> real \<Rightarrow> nat" where
  "step_count start_time end_time dt = nat \<lceil>(end_time - start_time) / dt\<rceil>"

text \<open>The value of the local variable \<^verbatim>\<open>P\<close> of the two single-plant \<^verbatim>\<open>operator()\<close>.\<close>

definition OnePlant_P :: "OnePlantSystemFunction \<Rightarrow> VecType \<Rightarrow> real" where
  "OnePlant_P sys x =
     (let Y = x ! 0;
          B = x ! 1;
          N = x ! 2;
          F = Y + B + N;
          FF_u = std_pow (F / (F + op_F_tilde sys)) (op_u sys);
          phi = FF_u / (op_f_0_u sys + FF_u);
          psi = op_s_0_h sys / (op_s_0_h sys + std_pow (B / F) (op_h sys))
      in op_P_max sys * (op_q sys * psi + (1 - op_q sys) * phi))"

definition OnePlantSeason_P :: "OnePlantSeasonSystemFunction \<Rightarrow> VecType \<Rightarrow> real" where
  "OnePlantSeason_P sys x =
     (let Y = x ! 0;
          B = x ! 1;
          N = x ! 2;
          F = Y + B + N;
          FF_u = std_pow (F / (F + os_F_tilde sys)) (os_u sys);
          phi = FF_u / (os_f_0_u sys + FF_u);
          psi = os_s_0_h sys / (os_s_0_h sys + std_pow (B / F) (os_h sys))
      in os_P_max sys * (os_q sys * psi + (1 - os_q sys) * phi))"

text \<open>
  Two plants with the same parameters; a matrix of \<open>n\<close> rows whose rows \<open>i\<close> and \<open>j\<close> are
  equal; a system object for \<open>n\<close> plants in which plants \<open>i\<close> and \<open>j\<close> have the same
  parameters.
\<close>

definition same_plants :: "LandConstFSystemFunction \<Rightarrow> nat \<Rightarrow> nat \<Rightarrow> bool" where
  "same_plants sys i j \<longleftrightarrow>
     lc_m sys ! i = lc_m sys ! j \<and> lc_d_yp sys ! i = lc_d_yp sys ! j \<and>
     lc_d_b0 sys ! i = lc_d_b0 sys ! j \<and> lc_d_bp sys ! i = lc_d_bp sys ! j \<and>
     lc_g_yp sys ! i = lc_g_yp sys ! j \<and> lc_g_b0 sys ! i = lc_g_b0 sys ! j \<and>
     lc_g_bp sys ! i = lc_g_bp sys ! j \<and> lc_L_0 sys ! i = lc_L_0 sys ! j"

definition twin_rows :: "nat \<Rightarrow> nat \<Rightarrow> nat \<Rightarrow> MatType \<Rightarrow> bool" where
  "twin_rows n i j x \<longleftrightarrow> length x = n \<and> x ! i = x ! j"

definition twin_system :: "nat \<Rightarrow> nat \<Rightarrow> nat \<Rightarrow> LandConstFSystemFunction \<Rightarrow> bool" where
  "twin_system n i j sys \<longleftrightarrow> lc_n_plants sys = n \<and> same_plants sys i j"

text \<open>The row that the output loop of \<^verbatim>\<open>landscape_constantF_ode\<close> writes for sample \<open>t\<close> and plant \<open>k\<close>.\<close>

definition landscape_row :: "LandConstFSystemFunction \<Rightarrow> MatType Observer \<Rightarrow> nat \<Rightarrow> nat \<Rightarrow> real list" where
  "landscape_row system obs t k =
     [obs_time obs ! t, real k, fst (obs_data obs ! t ! k), snd (obs_data obs ! t ! k),
      make_weights system [] (obs_data obs ! t) ! k]"

text \<open>
  The system object of the concrete scenario of the constant-input model (\<open>m = 0.1\<close>,
  \<open>R = 1\<close>, \<open>d_yp = 0.2\<close>, \<open>d_b0 = 0.05\<close>, \<open>d_bp = 0.1\<close>, \<open>g_yp = 0.3\<close>, \<open>g_b0 = 0.05\<close>,
  \<open>g_bp = 0.1\<close>, \<open>L_0 = 1\<close>, \<open>P_max = 5\<close>, \<open>q = 0.5\<close>, \<open>s_0 = 1\<close>, \<open>h = 2\<close>, \<open>f_0 = 1\<close>,
  \<open>F_tilde = 1\<close>, \<open>u = 2\<close>), and the box in which its state lies after \<open>j\<close> steps of size
  \<open>0.1\<close> from \<open>(1, 1, 1)\<close>.
\<close>

definition scenario_system :: OnePlantSystemFunction where
  "scenario_system =
     OnePlantSystemFunction_init (1/10) 1 (1/5) (1/20) (1/10) (3/10) (1/20) (1/10) 1 5 (1/2)
       1 2 1 1 2"

definition scenario_region :: "nat \<Rightarrow> VecType \<Rightarrow> bool" where
  "scenario_region j x \<longleftrightarrow>
     (\<exists>Y B N. x = [Y, B, N] \<and> 1 - real j / 50 \<le> Y \<and> 1 - real j / 50 \<le> B \<and>
        1 - 9 * real j / 100 \<le> N \<and> N \<le> 1 + real j / 10)"

section \<open>The right-hand side of the single-plant models\<close>

text \<open>
  C1.  For every state \<open>(Y, B, N)\<close> with \<open>Y + B + N > 0\<close> and every time, the dynamics
  function of the constant-input model, built by its constructor from the sixteen
  parameters, overwrites the derivative buffer with \<open>(dY/dt, dB/dt, dN/dt)\<close> as the
  algebra of the specification gives them: \<open>F\<close>, \<open>FF_u\<close>, \<open>phi\<close>, \<open>psi\<close>, \<open>P\<close>, \<open>Lambda\<close>,
  the rates \<open>gamma\<close> and \<open>delta\<close>, the dispersal rates, and the three derivatives.
\<close>

theorem one_plant_rhs_algebra:
  "0 < Y + B + N \<Longrightarrow>
   OnePlant_call
     (OnePlantSystemFunction_init m R d_yp d_b0 d_bp g_yp g_b0 g_bp L_0 P_max q
        s_0 h f_0 F_tilde u) [Y, B, N] [a, b, c] t =
   (let F = Y + B + N;
        FF_u = std_pow (F / (F + F_tilde)) u;
        phi = FF_u / (std_pow f_0 u + FF_u);
        psi = std_pow s_0 h / (std_pow s_0 h + std_pow (B / F) h);
        P = P_max * (q * psi + (1 - q) * phi);
        Lambda = (P / F) / (L_0 + P / F);
        gamma_y = g_yp * Lambda;
        gamma_b = g_b0 + g_bp * Lambda;
        delta_y = d_yp * Lambda;
        delta_b = d_b0 + d_bp * Lambda;
        disp_y = delta_y * Y / F + gamma_y;
        disp_b = delta_b * B / F + gamma_b
    in [disp_y * N - m * Y, disp_b * N - m * B, R - N * (m + disp_y + disp_b)])"
  by (simp add: OnePlant_call_def OnePlantSystemFunction_init_def Let_def)

theorem one_plant_rhs_algebra_witness:
  "0 < (1::real) + 1 + 1 \<and>
   OnePlant_call
     (OnePlantSystemFunction_init (1/10) 1 (1/5) (1/20) (1/10) (3/10) (1/20) (1/10) 1 5 (1/2)
        1 2 1 1 2) [1, 1, 1] [0, 0, 0] 0 = [18/205, 43/1230, 71/123]"
  using one_plant_rhs_algebra [of 1 1 1 "1/10" 1 "1/5" "1/20" "1/10" "3/10" "1/20" "1/10" 1 5 "1/2"
        1 2 1 1 2 0 0 0 0]
  by (simp add: std_pow_def Let_def power2_eq_square)

section \<open>The loops of the landscape model\<close>

lemma length_resize: "length (resize n v) = n"
  by (simp add: resize_def)

lemma list_update_prefix_drop:
  "length ys = k \<Longrightarrow> k < length w \<Longrightarrow> (ys @ drop k w)[k := v] = (ys @ [v]) @ drop (Suc k) w"
  by (simp add: list_update_append Cons_nth_drop_Suc [symmetric])

lemma weights_loop:
  "k \<le> length w \<Longrightarrow>
   fold (\<lambda>i (wts_vec, wt_sum).
           let YN = 1 - snd (x ! i);
               wts_vec = wts_vec[i := std_pow YN (lc_u sys)]
           in (wts_vec, wt_sum + wts_vec ! i)) [0..<k] (w, s)
   = (map (raw_weight sys x) [0..<k] @ drop k w, s + sum_list (map (raw_weight sys x) [0..<k]))"
  (is "_ \<Longrightarrow> fold ?body _ _ = _")
proof (induction k)
  case 0
  then show ?case by simp
next
  case (Suc k)
  let ?ys = "map (raw_weight sys x) [0..<k]"
  from Suc have k: "k < length w" by simp
  have upd: "(?ys @ drop k w)[k := v] = (?ys @ [v]) @ drop (Suc k) w" for v
    using k by (intro list_update_prefix_drop) simp_all
  have nth: "((?ys @ [v]) @ drop (Suc k) w) ! k = v" for v
    by (simp add: nth_append)
  have "fold ?body [0..<Suc k] (w, s) = ?body k (fold ?body [0..<k] (w, s))"
    by simp
  also have "\<dots> = ?body k (?ys @ drop k w, s + sum_list ?ys)"
    using Suc by simp
  also have "\<dots> = ((?ys @ drop k w)[k := raw_weight sys x k],
                    s + sum_list ?ys + (?ys @ drop k w)[k := raw_weight sys x k] ! k)"
    by (simp add: Let_def raw_weight_def)
  also have "\<dots> = ((?ys @ [raw_weight sys x k]) @ drop (Suc k) w,
                    s + sum_list ?ys + raw_weight sys x k)"
    unfolding upd nth ..
  finally show ?case by simp
qed

lemma make_weights_eq:
  "make_weights sys w x =
     map (\<lambda>i. raw_weight sys x i / (lc_X sys + sum_list (map (raw_weight sys x) [0..<lc_n_plants sys])))
       [0..<lc_n_plants sys]"
proof -
  define w' where "w' = (if length w \<noteq> lc_n_plants sys then resize (lc_n_plants sys) w else w)"
  have len: "length w' = lc_n_plants sys"
    by (simp add: w'_def length_resize)
  show ?thesis
    unfolding make_weights_def Let_def w'_def [symmetric]
    by (simp add: weights_loop [unfolded Let_def] len)
qed

lemma raw_weight_ignores_weights: "raw_weight (sys\<lparr> lc_weights := w \<rparr>) x = raw_weight sys x"
  by (simp add: raw_weight_def fun_eq_iff)

lemma make_weights_ignores_weights:
  "make_weights (sys\<lparr> lc_weights := w \<rparr>) v x = make_weights sys v' x"
  by (simp add: make_weights_eq raw_weight_ignores_weights)

lemma one_plant_update: "one_plant sys i x dxdt t = dxdt[i := plant_deriv sys x t i]"
  by (simp add: one_plant_def plant_deriv_def Let_def del: replicate.simps)

lemma plants_loop:
  "n \<le> length dxdt \<Longrightarrow>
   fold (\<lambda>i dxdt. one_plant sys i x dxdt t) [0..<n] dxdt
     = map (plant_deriv sys x t) [0..<n] @ drop n dxdt"
proof (induction n)
  case 0
  then show ?case by simp
next
  case (Suc n)
  then have "n < length dxdt" by simp
  then have "(map (plant_deriv sys x t) [0..<n] @ drop n dxdt)[n := v]
      = (map (plant_deriv sys x t) [0..<n] @ [v]) @ drop (Suc n) dxdt" for v
    by (intro list_update_prefix_drop) simp_all
  with Suc show ?case
    by (simp add: one_plant_update)
qed

lemma sum_list_upt_sum: "sum_list (map f [0..<n]) = (\<Sum>j<n. f j)" for f :: "nat \<Rightarrow> real"
  by (simp add: interv_sum_list_conv_sum_set_nat atLeast0LessThan)

lemma std_pow_nonneg: "0 \<le> x \<Longrightarrow> 0 \<le> std_pow x y"
  by (simp add: std_pow_def)





section \<open>Allocation weights\<close>

text \<open>
  C3.  Every call of the landscape dynamics function makes the allocation weights again
  from the matrix it is given: whatever the member \<open>weights\<close> held before the call (the
  result of an earlier call, or anything else), the object and the derivative after the
  call are the same; the weights it leaves are, plant by plant,
  \<open>(1 - B\<^sub>i)^u / (X + \<Sum>\<^sub>j (1 - B\<^sub>j)^u)\<close> with \<open>B\<^sub>i\<close> the second column of row \<open>i\<close> of that
  matrix; and the derivative is the one \<^verbatim>\<open>one_plant\<close> computes from these weights.
\<close>

theorem landscape_weights_recomputed:
  "LandConstF_call (sys\<lparr> lc_weights := w \<rparr>) x dxdt t = LandConstF_call sys x dxdt t \<and>
   lc_weights (fst (LandConstF_call sys x dxdt t)) =
     map (\<lambda>i. std_pow (1 - snd (x ! i)) (lc_u sys)
                / (lc_X sys + (\<Sum>j<lc_n_plants sys. std_pow (1 - snd (x ! j)) (lc_u sys))))
       [0..<lc_n_plants sys] \<and>
   snd (LandConstF_call sys x dxdt t) =
     fold (\<lambda>i dxdt.
             one_plant
               (sys\<lparr> lc_weights :=
                  map (\<lambda>i. std_pow (1 - snd (x ! i)) (lc_u sys)
                             / (lc_X sys + (\<Sum>j<lc_n_plants sys. std_pow (1 - snd (x ! j)) (lc_u sys))))
                    [0..<lc_n_plants sys] \<rparr>) i x dxdt t)
          [0..<lc_n_plants sys] dxdt"
proof -
  have w: "make_weights sys v x =
     map (\<lambda>i. std_pow (1 - snd (x ! i)) (lc_u sys)
                / (lc_X sys + (\<Sum>j<lc_n_plants sys. std_pow (1 - snd (x ! j)) (lc_u sys))))
       [0..<lc_n_plants sys]" for v
    by (simp add: make_weights_eq sum_list_upt_sum raw_weight_def)
  have "make_weights (sys\<lparr> lc_weights := w \<rparr>) w x = make_weights sys (lc_weights sys) x"
    by (rule make_weights_ignores_weights)
  then have a: "LandConstF_call (sys\<lparr> lc_weights := w \<rparr>) x dxdt t = LandConstF_call sys x dxdt t"
    by (simp add: LandConstF_call_def Let_def)
  have b: "lc_weights (fst (LandConstF_call sys x dxdt t)) = make_weights sys (lc_weights sys) x"
    by (simp add: LandConstF_call_def Let_def)
  have c: "snd (LandConstF_call sys x dxdt t) =
      fold (\<lambda>i dxdt. one_plant (sys\<lparr> lc_weights := make_weights sys (lc_weights sys) x \<rparr>) i x dxdt t)
        [0..<lc_n_plants sys] dxdt"
    by (simp add: LandConstF_call_def Let_def)
  from a b c show ?thesis
    unfolding w by blast
qed




section \<open>The landscape vector field at the boundary\<close>




section \<open>The integrator loop\<close>

lemma step_guard:
  assumes "0 < dt"
  shows "start_time + real k * dt < end_time \<longleftrightarrow> k < step_count start_time end_time dt"
proof -
  let ?r = "(end_time - start_time) / dt"
  have "start_time + real k * dt < end_time \<longleftrightarrow> real k * dt < end_time - start_time"
    by (simp add: algebra_simps)
  also have "\<dots> \<longleftrightarrow> real k < ?r"
    using assms by (simp add: pos_less_divide_eq)
  also have "\<dots> \<longleftrightarrow> int k < \<lceil>?r\<rceil>"
    by (simp add: less_ceiling_iff)
  also have "\<dots> \<longleftrightarrow> k < nat \<lceil>?r\<rceil>"
    by linarith
  finally show ?thesis
    by (simp add: step_count_def)
qed

lemma visited_nonempty: "visited st system start_time dt s x k r \<noteq> []"
  by (cases r) simp_all

lemma length_visited: "length (visited st system start_time dt s x k r) = Suc r"
  by (induction r arbitrary: s x k) (simp_all split: prod.splits)

lemma integrate_loop_visited:
  assumes "0 < dt"
  shows "k + r = step_count start_time end_time dt \<Longrightarrow>
     integrate_loop st system start_time end_time dt s x obs k =
       (let vs = visited st system start_time dt s x k r
        in Some (fst (last vs), snd (last vs),
                 \<lparr> obs_data = obs_data obs @ map snd (tl vs),
                   obs_time = obs_time obs
                     @ map (\<lambda>j. start_time + real j * dt) [Suc k..<Suc (k + r)] \<rparr>,
                 k + r))"
proof (induction r arbitrary: s x obs k)
  case 0
  then have "\<not> start_time + real k * dt < end_time"
    using step_guard [OF assms, of start_time k end_time] by simp
  then show ?case
    by (subst integrate_loop.simps) (simp add: Let_def)
next
  case (Suc r)
  then have g: "start_time + real k * dt < end_time"
    using step_guard [OF assms, of start_time k end_time] by simp
  obtain s' x' where st: "st system s x (start_time + real k * dt) dt = (s', x')"
    by (cases "st system s x (start_time + real k * dt) dt")
  have ih: "integrate_loop st system start_time end_time dt s' x' obs' (Suc k) =
       (let vs = visited st system start_time dt s' x' (Suc k) r
        in Some (fst (last vs), snd (last vs),
                 \<lparr> obs_data = obs_data obs' @ map snd (tl vs),
                   obs_time = obs_time obs'
                     @ map (\<lambda>j. start_time + real j * dt) [Suc (Suc k)..<Suc (Suc k + r)] \<rparr>,
                 Suc k + r))" for obs'
    using Suc.prems by (intro Suc.IH) simp
  have hd: "visited st system start_time dt s' x' (Suc k) r
      = (s', x') # tl (visited st system start_time dt s' x' (Suc k) r)"
    by (cases r) (simp_all split: prod.splits)
  have upt: "[Suc k..<Suc (Suc (k + r))] = Suc k # [Suc (Suc k)..<Suc (Suc (k + r))]"
    by (simp add: upt_conv_Cons)
  have data: "map snd (visited st system start_time dt s' x' (Suc k) r)
      = x' # map snd (tl (visited st system start_time dt s' x' (Suc k) r))"
    by (subst hd) simp
  show ?case
    by (subst integrate_loop.simps)
       (simp add: Let_def g st ih observe_def visited_nonempty upt data del: upt_Suc)
qed

lemma visited_hd: "hd (visited st system start_time dt s x k r) = (s, x)"
  by (cases r) simp_all



lemma integrate_const_result:
  assumes "0 < dt"
  shows "integrate_const st system s x start_time end_time dt Observer_init =
     (let n = step_count start_time end_time dt;
          vs = visited st system start_time dt s x 0 n
      in Some (fst (last vs), snd (last vs),
               \<lparr> obs_data = map snd vs,
                 obs_time = map (\<lambda>j. start_time + real j * dt) [0..<Suc n] \<rparr>, n))"
proof -
  let ?n = "step_count start_time end_time dt"
  let ?vs = "visited st system start_time dt s x 0 ?n"
  have vs: "?vs = (s, x) # tl ?vs"
    by (cases ?n) (simp_all split: prod.splits)
  have data: "x # map snd (tl ?vs) = map snd ?vs"
    by (subst (2) vs) simp
  have upt: "[0..<Suc ?n] = 0 # [Suc 0..<Suc ?n]"
    by (simp add: upt_conv_Cons)
  show ?thesis
    unfolding integrate_const_def Let_def
    using integrate_loop_visited [OF assms, of 0 ?n start_time end_time st system s x
        "observe Observer_init x start_time"]
    by (simp add: Observer_init_def observe_def Let_def data upt del: upt_Suc)
qed


lemma count_tenth: "step_count 0 1 (1/10) = 10"
  by (simp add: step_count_def)

lemma visited_invariant:
  assumes step: "\<And>s x t. I s \<Longrightarrow> X x \<Longrightarrow> I (fst (st system s x t dt)) \<and> X (snd (st system s x t dt))"
  shows "I s \<Longrightarrow> X x \<Longrightarrow>
         \<forall>v\<in>set (visited st system start_time dt s x k r). I (fst v) \<and> X (snd v)"
proof (induction r arbitrary: s x k)
  case 0
  then show ?case by simp
next
  case (Suc r)
  obtain s' x' where st: "st system s x (start_time + real k * dt) dt = (s', x')"
    by (cases "st system s x (start_time + real k * dt) dt")
  from step [OF Suc.prems, of "start_time + real k * dt"] st have "I s'" "X x'"
    by simp_all
  from Suc.IH [OF this] Suc.prems st show ?case
    by simp
qed

lemma rk_stages_invariant:
  assumes comb: "\<And>as ks. \<forall>k\<in>set ks. D k \<Longrightarrow> X (rk_combine add scale x dt as ks)"
    and f: "\<And>s y t. I s \<Longrightarrow> X y \<Longrightarrow> I (fst (system s y t)) \<and> D (snd (system s y t))"
  shows "I s \<Longrightarrow> \<forall>k\<in>set ks. D k \<Longrightarrow>
         I (fst (rk_stages add scale system x t dt stages s ks)) \<and>
         (\<forall>k\<in>set (snd (rk_stages add scale system x t dt stages s ks)). D k)"
proof (induction stages arbitrary: s ks)
  case Nil
  then show ?case by simp
next
  case (Cons stage stages)
  obtain c as where stage: "stage = (c, as)"
    by (cases stage)
  obtain s' k where call: "system s (rk_combine add scale x dt as ks) (t + c * dt) = (s', k)"
    by (cases "system s (rk_combine add scale x dt as ks) (t + c * dt)")
  have "X (rk_combine add scale x dt as ks)"
    using Cons.prems(2) by (rule comb)
  from f [OF Cons.prems(1) this, of "t + c * dt"] call have "I s'" "D k"
    by simp_all
  with Cons.prems(2) have "\<forall>k\<in>set (ks @ [k]). D k"
    by simp
  from Cons.IH [OF \<open>I s'\<close> this] show ?case
    by (simp add: stage call)
qed

lemma rk_do_step_invariant:
  assumes comb: "\<And>as ks. \<forall>k\<in>set ks. D k \<Longrightarrow> X (rk_combine add scale x dt as ks)"
    and f: "\<And>s y t. I s \<Longrightarrow> X y \<Longrightarrow> I (fst (system s y t)) \<and> D (snd (system s y t))"
    and s: "I s"
  shows "I (fst (rk_do_step add scale tab system s x t dt)) \<and>
         X (snd (rk_do_step add scale tab system s x t dt))"
proof -
  obtain s' ks where r: "rk_stages add scale system x t dt (fst tab) s [] = (s', ks)"
    by (cases "rk_stages add scale system x t dt (fst tab) s []")
  from rk_stages_invariant [of D X add scale x dt I system s "[]" t "fst tab", OF comb f s] r
  have "I s'" "\<forall>k\<in>set ks. D k"
    by simp_all
  then show ?thesis
    by (simp add: rk_do_step_def r comb)
qed

lemma length_vec_combine:
  "\<forall>k\<in>set ks. length k = length x \<Longrightarrow> length (rk_combine vec_add vec_scale x dt as ks) = length x"
  unfolding rk_combine_def
proof (induction ks arbitrary: x as)
  case Nil
  then show ?case by simp
next
  case (Cons k ks)
  show ?case
  proof (cases as)
    case Nil
    then show ?thesis by simp
  next
    case (Cons a as')
    have "length (vec_add x (vec_scale (dt * a) k)) = length x"
      using Cons.prems by (simp add: vec_add_def vec_scale_def)
    with Cons.IH [of "vec_add x (vec_scale (dt * a) k)" as'] Cons.prems Cons show ?thesis
      by simp
  qed
qed

lemma length_OnePlant_system: "length (snd (OnePlant_system s y t)) = length y"
  by (simp add: OnePlant_system_def OnePlant_call_def Let_def)

lemma length_vec_rk_step:
  "length (snd (rk_do_step vec_add vec_scale tab OnePlant_system s x t dt)) = length x"
  using rk_do_step_invariant
    [of "\<lambda>k. length k = length x" "\<lambda>y. length y = length x" vec_add vec_scale x dt
        "\<lambda>_. True" OnePlant_system s tab t]
  by (simp add: length_vec_combine length_OnePlant_system)


lemma OnePlant_call_P:
  "OnePlant_call sys x dxdt t =
     (let Y = x ! 0; B = x ! 1; N = x ! 2; F = Y + B + N;
          PF = OnePlant_P sys x / F;
          Lambda = PF / (op_L_0 sys + PF);
          disp_y = op_d_yp sys * Lambda * Y / F + op_g_yp sys * Lambda;
          disp_b = (op_d_b0 sys + op_d_bp sys * Lambda) * B / F
                     + (op_g_b0 sys + op_g_bp sys * Lambda)
      in dxdt[0 := disp_y * N - op_m sys * Y, 1 := disp_b * N - op_m sys * B,
              2 := op_R sys - N * (op_m sys + disp_y + disp_b)])"
  by (simp add: OnePlant_call_def OnePlant_P_def Let_def)

lemma OnePlantSeason_call_P:
  "OnePlantSeason_call sys x dxdt t =
     (let Y = x ! 0; B = x ! 1; N = x ! 2; F = Y + B + N;
          PF = OnePlantSeason_P sys x / F;
          Lambda = PF / (os_L_0 sys + PF);
          disp_y = os_d_yp sys * Lambda * Y / F + os_g_yp sys * Lambda;
          disp_b = (os_d_b0 sys + os_d_bp sys * Lambda) * B / F
                     + (os_g_b0 sys + os_g_bp sys * Lambda)
      in dxdt[0 := disp_y * N - os_m sys * Y, 1 := disp_b * N - os_m sys * B,
              2 := season_R sys t - N * (os_m sys + disp_y + disp_b)])"
  by (simp add: OnePlantSeason_call_def OnePlantSeason_P_def Let_def)

lemma upt_3: "[0..<3] = [0, 1, 2]"
  by (simp add: upt_rec)

lemma season_P_column:
  "obs_data obs ! i = [Y, B, N] \<Longrightarrow>
   last (one_plant_season_ode_row obs 3 P_max q (std_pow s_0 h) h (std_pow f_0 u) F_tilde u i) =
     OnePlantSeason_P
       (OnePlantSeasonSystemFunction_init m d_yp d_b0 d_bp g_yp g_b0 g_bp L_0 P_max q
          s_0 h f_0 F_tilde u R_hat t0 k lambda) [Y, B, N]"
  by (simp add: one_plant_season_ode_row_def OnePlantSeason_P_def
      OnePlantSeasonSystemFunction_init_def Let_def upt_3)

lemma one_plant_ode_result:
  assumes "0 < dt"
  shows "one_plant_ode st m R d_yp d_b0 d_bp g_yp g_b0 g_bp L_0 P_max q s_0 h f_0 F_tilde u
      dt max_t Y0 B0 N0 =
    (let n = step_count 0 max_t dt;
         vs = visited st OnePlant_system 0 dt
                (OnePlantSystemFunction_init m R d_yp d_b0 d_bp g_yp g_b0 g_bp
                   L_0 P_max q s_0 h f_0 F_tilde u) [Y0, B0, N0] 0 n;
         obs = \<lparr> obs_data = map snd vs, obs_time = map (\<lambda>j. real j * dt) [0..<Suc n] \<rparr>
     in Some \<lparr> nrow = Suc n, ncol = length (snd (last vs)) + 2,
               colnames = [''t'', ''Y'', ''B'', ''N'', ''P''],
               cells = map (one_plant_ode_row obs (length (snd (last vs))) P_max q
                              (std_pow s_0 h) h (std_pow f_0 u) u) [0..<Suc n] \<rparr>)"
proof -
  have x: "(replicate 3 0)[0 := Y0, 1 := B0, 2 := N0] = [Y0, B0, N0]"
    by (simp add: numeral_3_eq_3)
  show ?thesis
    unfolding one_plant_ode_def x Let_def integrate_const_result [OF assms, unfolded Let_def]
    by (simp add: length_visited del: upt_Suc)
qed

lemma hd_one_plant_ode_row:
  "hd (one_plant_ode_row obs x_size P_max q s_0_h h f_0_u u i) = obs_time obs ! i"
  by (simp add: one_plant_ode_row_def Let_def)

lemma one_plant_ode_times:
  assumes "0 < dt"
  shows "\<exists>M. one_plant_ode st m R d_yp d_b0 d_bp g_yp g_b0 g_bp L_0 P_max q s_0 h f_0 F_tilde u
      dt max_t Y0 B0 N0 = Some M \<and> nrow M = Suc (step_count 0 max_t dt) \<and>
      map hd (cells M) = map (\<lambda>j. real j * dt) [0..<Suc (step_count 0 max_t dt)]"
proof -
  have "map (\<lambda>i. map (\<lambda>j. real j * dt) [0..<Suc n] ! i) [0..<Suc n]
      = map (\<lambda>j. real j * dt) [0..<Suc n]" for n
    by (rule nth_equalityI) (simp_all del: upt_Suc)
  then show ?thesis
    unfolding one_plant_ode_result [OF assms] Let_def
    by (simp add: hd_one_plant_ode_row comp_def del: upt_Suc)
qed

section \<open>Recorded samples\<close>



section \<open>The column P of the single-plant outputs\<close>

lemma visited_lengths:
  "\<forall>v\<in>set (visited (rk_do_step vec_add vec_scale tab) OnePlant_system start_time dt s x k r).
     length (snd v) = length x"
  using visited_invariant
    [of "\<lambda>_. True" "\<lambda>y. length y = length x" "rk_do_step vec_add vec_scale tab" OnePlant_system
        dt s x start_time k r]
  by (simp add: length_vec_rk_step)

lemma visited_first: "visited st system start_time dt s x k r ! 0 = (s, x)"
  using visited_hd [of st system start_time dt s x k r]
  by (simp add: hd_conv_nth visited_nonempty)

text \<open>
  C5.  The column \<^verbatim>\<open>P\<close> of the output is meant to be the visitation rate \<open>P\<close> of the
  right-hand side at the recorded state.  The loop of \<^verbatim>\<open>one_plant_season_ode\<close> computes it
  so (lemma \<open>season_P_column\<close>).  The loop of \<^verbatim>\<open>one_plant_ode\<close> computes \<open>phi\<close> from
  \<open>F^u\<close>, the formula that \<^verbatim>\<open>operator()\<close> has only in a comment, and not from
  \<open>(F / (F + F_tilde))^u\<close>.  In the run with \<open>m = 0.1\<close>, \<open>R = 1\<close>, \<open>d_yp = 0.2\<close>,
  \<open>d_b0 = 0.05\<close>, \<open>d_bp = 0.1\<close>, \<open>g_yp = 0.3\<close>, \<open>g_b0 = 0.05\<close>, \<open>g_bp = 0.1\<close>, \<open>L_0 = 1\<close>,
  \<open>P_max = 5\<close>, \<open>q = 0.5\<close>, \<open>s_0 = 1\<close>, \<open>h = 2\<close>, \<open>f_0 = 1\<close>, \<open>F_tilde = 1\<close>, \<open>u = 2\<close>,
  \<open>dt = 0.1\<close>, \<open>max_t = 1\<close> and \<open>Y0 = B0 = N0 = 1\<close>, whatever the tableau of the stepper,
  the first row of the output is the initial state with \<open>P = 9/2\<close>, while the right-hand
  side has \<open>P = 63/20\<close> at that state.
\<close>

theorem one_plant_ode_P_column_stale:
  "(\<exists>M. one_plant_ode (rk_do_step vec_add vec_scale tab)
          (1/10) 1 (1/5) (1/20) (1/10) (3/10) (1/20) (1/10) 1 5 (1/2) 1 2 1 1 2 (1/10) 1 1 1 1
        = Some M \<and> hd (cells M) = [0, 1, 1, 1, 9/2]) \<and>
   OnePlant_P
     (OnePlantSystemFunction_init (1/10) 1 (1/5) (1/20) (1/10) (3/10) (1/20) (1/10) 1 5 (1/2)
        1 2 1 1 2) [1, 1, 1] = 63/20"
proof -
  let ?sys = "OnePlantSystemFunction_init (1/10) 1 (1/5) (1/20) (1/10) (3/10) (1/20) (1/10) 1 5
        (1/2) 1 2 1 1 2"
  let ?vs = "visited (rk_do_step vec_add vec_scale tab) OnePlant_system 0 (1/10) ?sys [1, 1, 1] 0
        (step_count 0 1 (1/10))"
  have "last ?vs \<in> set ?vs"
    by (rule last_in_set) (rule visited_nonempty)
  with visited_lengths [of tab 0 "1/10" ?sys "[1, 1, 1]" 0 "step_count 0 1 (1/10)"]
  have len: "length (snd (last ?vs)) = 3"
    by auto
  have row: "one_plant_ode_row \<lparr> obs_data = map snd ?vs, obs_time = ts \<rparr> 3 5 (1/2)
      (std_pow 1 2) 2 (std_pow 1 2) 2 0 = [ts ! 0, 1, 1, 1, 9/2]" for ts
    by (simp add: one_plant_ode_row_def Let_def upt_3 visited_first length_visited
        std_pow_def power2_eq_square)
  have "(0::real) < 1/10" by simp
  from one_plant_ode_result [OF this, of "rk_do_step vec_add vec_scale tab"
      "1/10" 1 "1/5" "1/20" "1/10" "3/10" "1/20" "1/10" 1 5 "1/2" 1 2 1 1 2 1 1 1 1]
  have a: "\<exists>M. one_plant_ode (rk_do_step vec_add vec_scale tab)
          (1/10) 1 (1/5) (1/20) (1/10) (3/10) (1/20) (1/10) 1 5 (1/2) 1 2 1 1 2 (1/10) 1 1 1 1
        = Some M \<and> hd (cells M) = [0, 1, 1, 1, 9/2]"
    by (simp add: Let_def len row upt_conv_Cons del: upt_Suc)
  have b: "OnePlant_P ?sys [1, 1, 1] = 63/20"
    by (simp add: OnePlant_P_def OnePlantSystemFunction_init_def Let_def std_pow_def
        power2_eq_square)
  from a b show ?thesis by blast
qed

section \<open>Validation of the vector lengths\<close>

text \<open>
  C8.  When one of the per-plant vectors \<open>d_yp\<close>, \<open>d_b0\<close>, \<open>d_bp\<close>, \<open>g_yp\<close>, \<open>g_b0\<close>,
  \<open>g_bp\<close>, \<open>L_0\<close>, \<open>Y0\<close>, \<open>B0\<close> has a length other than that of \<open>m\<close>, the landscape entry
  point returns the empty matrix of \<open>0\<close> rows and \<open>0\<close> columns and the integrator has taken
  no step.  The result is the same for every stepper, step size and horizon, also for
  \<open>dt = 0\<close> and \<open>max_t = 0\<close>, where a call of the integrator would not return: the
  integrator, and with it the dynamics function, is not called.
\<close>

theorem length_mismatch_returns_empty:
  assumes "length d_yp \<noteq> length m \<or> length d_b0 \<noteq> length m \<or> length d_bp \<noteq> length m \<or>
           length g_yp \<noteq> length m \<or> length g_b0 \<noteq> length m \<or> length g_bp \<noteq> length m \<or>
           length L_0 \<noteq> length m \<or> length Y0 \<noteq> length m \<or> length B0 \<noteq> length m"
  shows "landscape_constantF_ode st m d_yp d_b0 d_bp g_yp g_b0 g_bp L_0 u X Y0 B0 dt max_t =
           Some \<lparr> matrix = \<lparr> nrow = 0, ncol = 0, colnames = [], cells = [] \<rparr>,
                  steps_taken = 0 \<rparr>"
  using assms
  by (simp add: landscape_constantF_ode_def len_check_def NumericMatrix_init_def Let_def)

theorem length_mismatch_returns_empty_witness:
  "length [1::real] \<noteq> length [1, 1::real] \<and>
   landscape_constantF_ode (rk_do_step mat_add mat_scale rk4_tableau)
       [1, 1] [1] [1, 1] [1, 1] [1, 1] [1, 1] [1, 1] [1, 1] 1 1 [1/2, 1/2] [1/10, 1/10] 0 0 =
     Some \<lparr> matrix = \<lparr> nrow = 0, ncol = 0, colnames = [], cells = [] \<rparr>, steps_taken = 0 \<rparr>"
  using length_mismatch_returns_empty
    [of "[1]" "[1, 1]" "[1, 1]" "[1, 1]" "[1, 1]" "[1, 1]" "[1, 1]" "[1, 1]" "[1/2, 1/2]"
        "[1/10, 1/10]" "rk_do_step mat_add mat_scale rk4_tableau" 1 1 0 0]
  by simp

section \<open>Identical plants\<close>

lemma weights_twin:
  "i < lc_n_plants s \<Longrightarrow> j < lc_n_plants s \<Longrightarrow> x ! i = x ! j \<Longrightarrow>
   make_weights s w x ! i = make_weights s w' x ! j"
  by (simp add: make_weights_eq raw_weight_def)

lemma plant_deriv_eq:
  "plant_deriv sys x t i =
     (let Y = fst (x ! i); B = snd (x ! i); N = 1 - Y - B;
          P = lc_weights sys ! i;
          Lambda = P / (lc_L_0 sys ! i + P);
          disp_y = lc_d_yp sys ! i * Lambda * Y + lc_g_yp sys ! i * Lambda;
          disp_b = (lc_d_b0 sys ! i + lc_d_bp sys ! i * Lambda) * B
                     + (lc_g_b0 sys ! i + lc_g_bp sys ! i * Lambda)
      in (disp_y * N - lc_m sys ! i * Y, disp_b * N - lc_m sys ! i * B))"
  by (simp add: plant_deriv_def one_plant_def Let_def del: replicate.simps)

lemma plant_deriv_twin:
  "same_plants sys i j \<Longrightarrow> lc_weights sys ! i = lc_weights sys ! j \<Longrightarrow> x ! i = x ! j \<Longrightarrow>
   plant_deriv sys x t i = plant_deriv sys x t j"
  by (simp add: plant_deriv_eq same_plants_def)

lemma LandConstF_system_eq:
  "length x = lc_n_plants sys \<Longrightarrow>
   LandConstF_system sys x t =
     (sys\<lparr> lc_weights := make_weights sys (lc_weights sys) x \<rparr>,
      map (plant_deriv (sys\<lparr> lc_weights := make_weights sys (lc_weights sys) x \<rparr>) x t)
        [0..<lc_n_plants sys])"
  by (simp add: LandConstF_system_def LandConstF_call_def Let_def plants_loop)

lemma LandConstF_system_twin:
  assumes "i < n" "j < n" "twin_system n i j s" "twin_rows n i j y"
  shows "twin_system n i j (fst (LandConstF_system s y t)) \<and>
         twin_rows n i j (snd (LandConstF_system s y t))"
proof -
  let ?s' = "s\<lparr> lc_weights := make_weights s (lc_weights s) y \<rparr>"
  from assms have n: "lc_n_plants s = n" "length y = n" and y: "y ! i = y ! j"
    and sp: "same_plants s i j"
    by (simp_all add: twin_system_def twin_rows_def)
  have sp': "same_plants ?s' i j"
    using sp by (simp add: same_plants_def)
  have w: "lc_weights ?s' ! i = lc_weights ?s' ! j"
    using assms(1,2) n y by (simp add: weights_twin)
  have "plant_deriv ?s' y t i = plant_deriv ?s' y t j"
    using sp' w y by (rule plant_deriv_twin)
  then show ?thesis
    using assms(1,2) n sp'
    by (simp add: LandConstF_system_eq twin_system_def twin_rows_def)
qed

lemma mat_combine_twin:
  "i < n \<Longrightarrow> j < n \<Longrightarrow> twin_rows n i j x \<Longrightarrow> \<forall>k\<in>set ks. twin_rows n i j k \<Longrightarrow>
   twin_rows n i j (rk_combine mat_add mat_scale x dt as ks)"
  unfolding rk_combine_def
proof (induction ks arbitrary: x as)
  case Nil
  then show ?case by simp
next
  case (Cons k ks)
  show ?case
  proof (cases as)
    case Nil
    with Cons.prems show ?thesis by simp
  next
    case (Cons a as')
    have "twin_rows n i j (mat_add x (mat_scale (dt * a) k))"
      using Cons.prems by (simp add: twin_rows_def mat_add_def mat_scale_def)
    from Cons.IH [OF Cons.prems(1,2) this, of as'] Cons.prems(4) Cons show ?thesis
      by simp
  qed
qed

lemma rk_step_twin:
  assumes "i < n" "j < n" "twin_system n i j s" "twin_rows n i j x"
  shows "twin_system n i j (fst (rk_do_step mat_add mat_scale tab LandConstF_system s x t dt)) \<and>
         twin_rows n i j (snd (rk_do_step mat_add mat_scale tab LandConstF_system s x t dt))"
proof (rule rk_do_step_invariant [where D = "twin_rows n i j"])
  show "twin_rows n i j (rk_combine mat_add mat_scale x dt as ks)"
    if "\<forall>k\<in>set ks. twin_rows n i j k" for as ks
    using assms(1,2,4) that by (rule mat_combine_twin)
  show "twin_system n i j (fst (LandConstF_system s y t)) \<and>
        twin_rows n i j (snd (LandConstF_system s y t))"
    if "twin_system n i j s" "twin_rows n i j y" for s y t
    using assms(1,2) that by (rule LandConstF_system_twin)
  show "twin_system n i j s" by fact
qed

lemma visited_twin:
  assumes "i < n" "j < n" "twin_system n i j s" "twin_rows n i j x"
  shows "\<forall>v\<in>set (visited (rk_do_step mat_add mat_scale tab) LandConstF_system start_time dt s x k r).
           twin_system n i j (fst v) \<and> twin_rows n i j (snd v)"
  using rk_step_twin [OF assms(1,2)] assms(3,4)
  by (intro visited_invariant) auto


lemma make_weights_any: "make_weights sys w x = make_weights sys [] x"
  by (simp add: make_weights_eq)

lemma landscape_rows_loop:
  "snd (fold (\<lambda>t (wts, out).
                  let wts = make_weights system wts (obs_data obs ! t)
                  in (wts, out @ map (\<lambda>k. [obs_time obs ! t, real k,
                                             fst (obs_data obs ! t ! k),
                                             snd (obs_data obs ! t ! k),
                                             wts ! k]) [0..<np]))
               [0..<n] (w, out))
     = out @ concat (map (\<lambda>t. map (landscape_row system obs t) [0..<np]) [0..<n])"
proof (induction n)
  case 0
  then show ?case by simp
next
  case (Suc n)
  have w: "make_weights system v x = make_weights system [] x" for v x
    by (rule make_weights_any)
  from Suc show ?case
    by (simp add: Let_def split_beta landscape_row_def w [of "fst _"])
qed

lemma landscape_rows_eq:
  "landscape_rows system obs np n =
     concat (map (\<lambda>t. map (landscape_row system obs t) [0..<np]) [0..<n])"
  unfolding landscape_rows_def by (simp add: landscape_rows_loop)

lemma length_blocks: "length (concat (map (\<lambda>t. map (g t) [0..<np]) [0..<n])) = n * np"
  by (induction n) simp_all

lemma nth_blocks:
  "t < n \<Longrightarrow> k < np \<Longrightarrow> concat (map (\<lambda>t. map (g t) [0..<np]) [0..<n]) ! (t * np + k) = g t k"
proof (induction n)
  case 0
  then show ?case by simp
next
  case (Suc n)
  show ?case
  proof (cases "t < n")
    case True
    then have "Suc t \<le> n" by simp
    then have "Suc t * np \<le> n * np" by (rule mult_le_mono1)
    with Suc.prems have "t * np + k < n * np" by simp
    with Suc True show ?thesis
      by (simp add: nth_append length_blocks)
  next
    case False
    with Suc.prems have "t = n" by simp
    with Suc.prems show ?thesis
      by (simp add: nth_append length_blocks)
  qed
qed

lemma landscape_result:
  assumes "length d_yp = length m" "length d_b0 = length m" "length d_bp = length m"
    "length g_yp = length m" "length g_b0 = length m" "length g_bp = length m"
    "length L_0 = length m" "length Y0 = length m" "length B0 = length m"
    and "0 < dt"
  shows "landscape_constantF_ode st m d_yp d_b0 d_bp g_yp g_b0 g_bp L_0 u X Y0 B0 dt max_t =
    (let np = length m;
         n = step_count 0 max_t dt;
         vs = visited st LandConstF_system 0 dt
                (LandConstFSystemFunction_init m d_yp d_b0 d_bp g_yp g_b0 g_bp L_0 u X)
                (map (\<lambda>i. (Y0 ! i, B0 ! i)) [0..<np]) 0 n;
         obs = \<lparr> obs_data = map snd vs, obs_time = map (\<lambda>j. real j * dt) [0..<Suc n] \<rparr>
     in Some \<lparr> matrix = \<lparr> nrow = Suc n * np, ncol = 5,
                            colnames = [''t'', ''p'', ''Y'', ''B'', ''P''],
                            cells = concat (map (\<lambda>t. map (landscape_row (fst (last vs)) obs t)
                                                      [0..<np]) [0..<Suc n]) \<rparr>,
               steps_taken = n \<rparr>)"
  unfolding landscape_constantF_ode_def Let_def
    integrate_const_result [OF assms(10), unfolded Let_def] landscape_rows_eq
  using assms(1-9)
  by (simp add: len_check_def length_visited del: upt_Suc)


lemma init_twin:
  assumes "m ! i = m ! j" "d_yp ! i = d_yp ! j" "d_b0 ! i = d_b0 ! j" "d_bp ! i = d_bp ! j"
    "g_yp ! i = g_yp ! j" "g_b0 ! i = g_b0 ! j" "g_bp ! i = g_bp ! j" "L_0 ! i = L_0 ! j"
  shows "twin_system (length m) i j
           ((LandConstFSystemFunction_init m d_yp d_b0 d_bp g_yp g_b0 g_bp L_0 u X)
              \<lparr> lc_weights := w \<rparr>)"
    and "twin_system (length m) i j
           (LandConstFSystemFunction_init m d_yp d_b0 d_bp g_yp g_b0 g_bp L_0 u X)"
  using assms by (simp_all add: twin_system_def same_plants_def LandConstFSystemFunction_init_def)

text \<open>
  C9.  Let plants \<open>i\<close> and \<open>j\<close> of a landscape have the same parameters and the same initial
  \<open>Y\<close> and \<open>B\<close>, and let the vectors have the length of \<open>m\<close>.  Then for every tableau of
  the stepper and every \<open>dt > 0\<close> the entry point returns, and at every recorded sample
  the output rows of the two plants agree in the time, in \<open>Y\<close>, in \<open>B\<close> and in the
  allocation weight \<open>P\<close> (they differ in the plant index only).  More generally one
  integration step from any matrix with equal rows \<open>i\<close> and \<open>j\<close> gives a matrix with equal
  rows \<open>i\<close> and \<open>j\<close>, whatever the weights member holds.  The scenario of two identical
  plants with \<open>u = 1\<close>, \<open>X = 1\<close>, \<open>Y0 = [0.5, 0.5]\<close> and \<open>B0 = [0.1, 0.1]\<close> is the instance
  below.
\<close>

theorem identical_plants_stay_identical:
  assumes len: "length d_yp = length m" "length d_b0 = length m" "length d_bp = length m"
      "length g_yp = length m" "length g_b0 = length m" "length g_bp = length m"
      "length L_0 = length m" "length Y0 = length m" "length B0 = length m"
    and ij: "i < length m" "j < length m"
    and par: "m ! i = m ! j" "d_yp ! i = d_yp ! j" "d_b0 ! i = d_b0 ! j" "d_bp ! i = d_bp ! j"
      "g_yp ! i = g_yp ! j" "g_b0 ! i = g_b0 ! j" "g_bp ! i = g_bp ! j" "L_0 ! i = L_0 ! j"
    and init: "Y0 ! i = Y0 ! j" "B0 ! i = B0 ! j"
    and dt: "0 < dt"
  shows "(\<exists>res. landscape_constantF_ode (rk_do_step mat_add mat_scale tab)
                  m d_yp d_b0 d_bp g_yp g_b0 g_bp L_0 u X Y0 B0 dt max_t = Some res \<and>
            nrow (matrix res) = Suc (steps_taken res) * length m \<and>
            (\<forall>t\<le>steps_taken res.
               cells (matrix res) ! (t * length m + i) =
                 (cells (matrix res) ! (t * length m + j))[1 := real i])) \<and>
         (\<forall>w x t. length x = length m \<and> x ! i = x ! j \<longrightarrow>
            (let x' = snd (rk_do_step mat_add mat_scale tab LandConstF_system
                            ((LandConstFSystemFunction_init m d_yp d_b0 d_bp g_yp g_b0 g_bp L_0 u X)
                               \<lparr> lc_weights := w \<rparr>) x t dt)
             in length x' = length m \<and> x' ! i = x' ! j))"
proof -
  let ?np = "length m"
  let ?n = "step_count 0 max_t dt"
  let ?sys = "LandConstFSystemFunction_init m d_yp d_b0 d_bp g_yp g_b0 g_bp L_0 u X"
  let ?x0 = "map (\<lambda>i. (Y0 ! i, B0 ! i)) [0..<?np]"
  let ?vs = "visited (rk_do_step mat_add mat_scale tab) LandConstF_system 0 dt ?sys ?x0 0 ?n"
  let ?obs = "\<lparr> obs_data = map snd ?vs, obs_time = map (\<lambda>j. real j * dt) [0..<Suc ?n] \<rparr>"
  let ?cells = "concat (map (\<lambda>t. map (landscape_row (fst (last ?vs)) ?obs t) [0..<?np])
                          [0..<Suc ?n])"
  have res: "landscape_constantF_ode (rk_do_step mat_add mat_scale tab)
        m d_yp d_b0 d_bp g_yp g_b0 g_bp L_0 u X Y0 B0 dt max_t =
      Some \<lparr> matrix = \<lparr> nrow = Suc ?n * ?np, ncol = 5,
                           colnames = [''t'', ''p'', ''Y'', ''B'', ''P''], cells = ?cells \<rparr>,
              steps_taken = ?n \<rparr>"
    using landscape_result [OF len dt, of "rk_do_step mat_add mat_scale tab" u X max_t]
    by (simp add: Let_def)
  have x0: "twin_rows ?np i j ?x0"
    using ij init by (simp add: twin_rows_def)
  have inv: "\<forall>v\<in>set ?vs. twin_system ?np i j (fst v) \<and> twin_rows ?np i j (snd v)"
    using ij init_twin(2) [OF par] x0 by (rule visited_twin)
  have "last ?vs \<in> set ?vs"
    by (rule last_in_set) (rule visited_nonempty)
  with inv have np: "lc_n_plants (fst (last ?vs)) = ?np"
    by (simp add: twin_system_def)
  have rows: "?cells ! (t * ?np + i) = (?cells ! (t * ?np + j))[1 := real i]" if "t \<le> ?n" for t
  proof -
    from that have t: "t < Suc ?n" by simp
    then have "?vs ! t \<in> set ?vs"
      by (simp add: length_visited)
    with inv have tw: "twin_rows ?np i j (snd (?vs ! t))"
      by blast
    have d: "obs_data ?obs ! t = snd (?vs ! t)"
      using t by (simp add: length_visited)
    from tw have e: "obs_data ?obs ! t ! i = obs_data ?obs ! t ! j"
      unfolding d by (simp add: twin_rows_def)
    have "make_weights (fst (last ?vs)) [] (obs_data ?obs ! t) ! i
        = make_weights (fst (last ?vs)) [] (obs_data ?obs ! t) ! j"
      using ij e by (intro weights_twin) (simp_all add: np)
    then have "landscape_row (fst (last ?vs)) ?obs t i
        = (landscape_row (fst (last ?vs)) ?obs t j)[1 := real i]"
      using e by (simp add: landscape_row_def)
    then show ?thesis
      using t ij by (simp only: nth_blocks)
  qed
  have step: "length x' = ?np \<and> x' ! i = x' ! j"
    if "length x = ?np" "x ! i = x ! j"
      and "x' = snd (rk_do_step mat_add mat_scale tab LandConstF_system
                       (?sys\<lparr> lc_weights := w \<rparr>) x t dt)" for w x t x'
  proof -
    from that(1,2) have "twin_rows ?np i j x"
      by (simp add: twin_rows_def)
    from rk_step_twin [OF ij init_twin(1) [OF par] this] that(3) show ?thesis
      by (simp add: twin_rows_def)
  qed
  from res rows step show ?thesis
    by (simp add: Let_def)
qed

theorem identical_plants_stay_identical_witness:
  "(\<exists>res. landscape_constantF_ode (rk_do_step mat_add mat_scale rk4_tableau)
             [1/10, 1/10] [1/5, 1/5] [1/20, 1/20] [1/10, 1/10] [3/10, 3/10] [1/20, 1/20]
             [1/10, 1/10] [1, 1] 1 1 [1/2, 1/2] [1/10, 1/10] (1/10) 1 = Some res \<and>
      nrow (matrix res) = Suc (steps_taken res) * 2 \<and>
      (\<forall>t\<le>steps_taken res.
         cells (matrix res) ! (t * 2 + 0) = (cells (matrix res) ! (t * 2 + 1))[1 := 0]))"
  using identical_plants_stay_identical
    [of "[1/5, 1/5]" "[1/10, 1/10]" "[1/20, 1/20]" "[1/10, 1/10]" "[3/10, 3/10]" "[1/20, 1/20]"
        "[1/10, 1/10]" "[1, 1]" "[1/2, 1/2]" "[1/10, 1/10]" 0 1 "1/10" rk4_tableau 1 1 1]
  by (simp add: mult_2_right)

section \<open>The concrete scenario of the constant-input model\<close>

lemma std_pow_one_two: "std_pow 1 2 = 1"
  by (simp add: std_pow_def)

lemma saturation_bounds: "0 \<le> z \<Longrightarrow> 0 \<le> z / (1 + z) \<and> z / (1 + z) \<le> 1" for z :: real
  by (simp add: divide_le_eq)

lemma one_plant_call_explicit:
  "OnePlant_call
     (OnePlantSystemFunction_init m R d_yp d_b0 d_bp g_yp g_b0 g_bp L_0 P_max q
        s_0 h f_0 F_tilde u) [Y, B, N] [a, b, c] t =
   (let F = Y + B + N;
        FF_u = std_pow (F / (F + F_tilde)) u;
        phi = FF_u / (std_pow f_0 u + FF_u);
        psi = std_pow s_0 h / (std_pow s_0 h + std_pow (B / F) h);
        P = P_max * (q * psi + (1 - q) * phi);
        PF = P / F;
        Lambda = PF / (L_0 + PF);
        disp_y = d_yp * Lambda * Y / F + g_yp * Lambda;
        disp_b = (d_b0 + d_bp * Lambda) * B / F + (g_b0 + g_bp * Lambda)
    in [disp_y * N - m * Y, disp_b * N - m * B, R - N * (m + disp_y + disp_b)])"
  by (simp add: OnePlant_call_def OnePlantSystemFunction_init_def Let_def)

lemma scenario_rhs:
  assumes "0 < Y" "0 < B" "0 < N"
  shows "\<exists>p q. 0 \<le> p \<and> p \<le> N / 2 \<and> 0 \<le> q \<and> q \<le> 3 * N / 10 \<and>
           OnePlant_call scenario_system [Y, B, N] [0, 0, 0] t =
             [p - Y / 10, q - B / 10, 1 - N / 10 - p - q]"
proof -
  let ?F = "Y + B + N"
  define FF_u where "FF_u = std_pow (?F / (?F + 1)) 2"
  define phi where "phi = FF_u / (1 + FF_u)"
  define psi where "psi = 1 / (1 + std_pow (B / ?F) 2)"
  define P where "P = 5 * (1/2 * psi + (1 - 1/2) * phi)"
  define PF where "PF = P / ?F"
  define L where "L = PF / (1 + PF)"
  define a where "a = 1/5 * L * Y / ?F + 3/10 * L"
  define b where "b = (1/20 + 1/10 * L) * B / ?F + (1/20 + 1/10 * L)"
  from assms have F: "0 < ?F" by simp
  have "0 \<le> FF_u"
    unfolding FF_u_def using F by (intro std_pow_nonneg) simp
  then have "0 \<le> phi"
    by (simp add: phi_def)
  have "0 \<le> std_pow (B / ?F) 2"
    using F assms by (intro std_pow_nonneg) simp
  then have "0 \<le> psi"
    by (simp add: psi_def)
  with \<open>0 \<le> phi\<close> have "0 \<le> P"
    by (simp add: P_def)
  with F have "0 \<le> PF"
    by (simp add: PF_def)
  from saturation_bounds [OF this] have L: "0 \<le> L" "L \<le> 1"
    by (simp_all add: L_def)
  define ry where "ry = Y / ?F"
  define rb where "rb = B / ?F"
  have ry: "0 \<le> ry" "ry \<le> 1" and rb: "0 \<le> rb" "rb \<le> 1"
    using assms F by (simp_all add: ry_def rb_def divide_le_eq)
  have "0 \<le> L * ry"
    using L(1) ry(1) by (rule mult_nonneg_nonneg)
  moreover have "L * ry \<le> 1 * 1"
    using L ry by (intro mult_mono) simp_all
  moreover have "a = 1/5 * (L * ry) + 3/10 * L"
    by (simp add: a_def ry_def)
  ultimately have a: "0 \<le> a" "a \<le> 1/2"
    using L by simp_all
  define c where "c = 1/20 + 1/10 * L"
  have c: "0 \<le> c" "c \<le> 3/20"
    using L by (simp_all add: c_def)
  have "0 \<le> c * rb"
    using c(1) rb(1) by (rule mult_nonneg_nonneg)
  moreover have "c * rb \<le> 3/20 * 1"
    using c rb by (intro mult_mono) simp_all
  moreover have "b = c * rb + c"
    by (simp add: b_def rb_def c_def)
  ultimately have b: "0 \<le> b" "b \<le> 3/10"
    using c by simp_all
  have "OnePlant_call scenario_system [Y, B, N] [0, 0, 0] t =
      (let F = Y + B + N;
           FF_u = std_pow (F / (F + 1)) 2;
           phi = FF_u / (std_pow 1 2 + FF_u);
           psi = std_pow 1 2 / (std_pow 1 2 + std_pow (B / F) 2);
           P = 5 * (1/2 * psi + (1 - 1/2) * phi);
           PF = P / F;
           Lambda = PF / (1 + PF);
           disp_y = 1/5 * Lambda * Y / F + 3/10 * Lambda;
           disp_b = (1/20 + 1/10 * Lambda) * B / F + (1/20 + 1/10 * Lambda)
       in [disp_y * N - 1/10 * Y, disp_b * N - 1/10 * B, 1 - N * (1/10 + disp_y + disp_b)])"
    unfolding scenario_system_def by (rule one_plant_call_explicit)
  also have "\<dots> = [a * N - 1/10 * Y, b * N - 1/10 * B, 1 - N * (1/10 + a + b)]"
    unfolding Let_def std_pow_one_two a_def b_def L_def PF_def P_def psi_def phi_def FF_u_def ..
  finally have call: "OnePlant_call scenario_system [Y, B, N] [0, 0, 0] t =
      [a * N - 1/10 * Y, b * N - 1/10 * B, 1 - N * (1/10 + a + b)]" .
  have "0 \<le> a * N" "a * N \<le> 1/2 * N" "0 \<le> b * N" "b * N \<le> 3/10 * N"
    using a b assms(3) by (auto intro: mult_right_mono)
  with call show ?thesis
    by (intro exI [of _ "a * N"] exI [of _ "b * N"]) (simp add: algebra_simps)
qed


lemma rk4_unfold:
  assumes "\<And>y \<tau>. system s y \<tau> = (s, G y \<tau>)"
  shows "snd (rk_do_step add scale rk4_tableau system s x t dt) =
    (let k1 = G x (t + 0 * dt);
         k2 = G (add x (scale (dt * (1/2)) k1)) (t + 1/2 * dt);
         k3 = G (add (add x (scale (dt * 0) k1)) (scale (dt * (1/2)) k2)) (t + 1/2 * dt);
         k4 = G (add (add (add x (scale (dt * 0) k1)) (scale (dt * 0) k2)) (scale (dt * 1) k3))
                (t + 1 * dt)
     in add (add (add (add x (scale (dt * (1/6)) k1)) (scale (dt * (1/3)) k2))
                   (scale (dt * (1/3)) k3)) (scale (dt * (1/6)) k4))"
  by (simp add: rk_do_step_def rk4_tableau_def rk_combine_def assms Let_def)

lemma vec3_axpy:
  "vec_add [a, b, c] (vec_scale r [d, e, f]) = [a + r * d, b + r * e, c + r * f]"
  by (simp add: vec_add_def vec_scale_def)

lemma rk4_OnePlant:
  "snd (rk_do_step vec_add vec_scale rk4_tableau OnePlant_system s x t dt) =
    (let G = \<lambda>y \<tau>. OnePlant_call s y (replicate (length y) 0) \<tau>;
         k1 = G x (t + 0 * dt);
         k2 = G (vec_add x (vec_scale (dt * (1/2)) k1)) (t + 1/2 * dt);
         k3 = G (vec_add (vec_add x (vec_scale (dt * 0) k1)) (vec_scale (dt * (1/2)) k2))
                (t + 1/2 * dt);
         k4 = G (vec_add (vec_add (vec_add x (vec_scale (dt * 0) k1)) (vec_scale (dt * 0) k2))
                   (vec_scale (dt * 1) k3)) (t + 1 * dt)
     in vec_add (vec_add (vec_add (vec_add x (vec_scale (dt * (1/6)) k1))
                   (vec_scale (dt * (1/3)) k2)) (vec_scale (dt * (1/3)) k3))
          (vec_scale (dt * (1/6)) k4))"
  using rk4_unfold [of OnePlant_system s "\<lambda>y \<tau>. OnePlant_call s y (replicate (length y) 0) \<tau>"
      vec_add vec_scale x t dt]
  by (simp only: OnePlant_system_def Let_def)

lemma replicate_vec3: "replicate (length [a, b, c]) (0::real) = [0, 0, 0]"
  by (simp add: numeral_3_eq_3)

lemma scenario_step:
  assumes j: "j < 10" and reg: "scenario_region j x"
  shows "scenario_region (Suc j)
           (snd (rk_do_step vec_add vec_scale rk4_tableau OnePlant_system scenario_system x t (1/10)))"
proof -
  from reg obtain Y B N where x: "x = [Y, B, N]"
    and lo: "1 - real j / 50 \<le> Y" "1 - real j / 50 \<le> B" "1 - 9 * real j / 100 \<le> N"
    and hi: "N \<le> 1 + real j / 10"
    by (auto simp: scenario_region_def)
  from j have jr: "real j \<le> 9" by simp
  have pos1: "0 < Y" "0 < B" "0 < N"
    using lo jr by linarith+
  obtain p1 q1 where b1: "0 \<le> p1" "p1 \<le> N / 2" "0 \<le> q1" "q1 \<le> 3 * N / 10"
    and k1: "OnePlant_call scenario_system [Y, B, N] [0, 0, 0] (t + 0 * (1/10)) =
               [p1 - Y / 10, q1 - B / 10, 1 - N / 10 - p1 - q1]"
    using scenario_rhs [OF pos1] by blast
  define Y2 where "Y2 = Y + 1/10 * (1/2) * (p1 - Y / 10)"
  define B2 where "B2 = B + 1/10 * (1/2) * (q1 - B / 10)"
  define N2 where "N2 = N + 1/10 * (1/2) * (1 - N / 10 - p1 - q1)"
  have x2: "vec_add [Y, B, N] (vec_scale (1/10 * (1/2))
              [p1 - Y / 10, q1 - B / 10, 1 - N / 10 - p1 - q1]) = [Y2, B2, N2]"
    by (simp only: vec3_axpy Y2_def B2_def N2_def)
  have pos2: "0 < Y2" "0 < B2" "0 < N2"
    unfolding Y2_def B2_def N2_def using pos1 b1 by argo+
  have up2: "Y2 \<le> Y + N / 40" "B2 \<le> B + 3 * N / 200" "N2 \<le> N + 1/20"
    unfolding Y2_def B2_def N2_def using pos1 b1 by argo+
  obtain p2 q2 where b2: "0 \<le> p2" "p2 \<le> N2 / 2" "0 \<le> q2" "q2 \<le> 3 * N2 / 10"
    and k2: "OnePlant_call scenario_system [Y2, B2, N2] [0, 0, 0] (t + 1/2 * (1/10)) =
               [p2 - Y2 / 10, q2 - B2 / 10, 1 - N2 / 10 - p2 - q2]"
    using scenario_rhs [OF pos2] by blast
  define Y3 where "Y3 = Y + 1/10 * 0 * (p1 - Y / 10) + 1/10 * (1/2) * (p2 - Y2 / 10)"
  define B3 where "B3 = B + 1/10 * 0 * (q1 - B / 10) + 1/10 * (1/2) * (q2 - B2 / 10)"
  define N3 where "N3 = N + 1/10 * 0 * (1 - N / 10 - p1 - q1)
                          + 1/10 * (1/2) * (1 - N2 / 10 - p2 - q2)"
  have x3: "vec_add (vec_add [Y, B, N] (vec_scale (1/10 * 0)
              [p1 - Y / 10, q1 - B / 10, 1 - N / 10 - p1 - q1]))
              (vec_scale (1/10 * (1/2)) [p2 - Y2 / 10, q2 - B2 / 10, 1 - N2 / 10 - p2 - q2])
            = [Y3, B3, N3]"
    by (simp only: vec3_axpy Y3_def B3_def N3_def)
  have pos3: "0 < Y3" "0 < B3" "0 < N3"
    unfolding Y3_def B3_def N3_def using pos1 pos2 up2 b2 lo hi jr by argo+
  have up3: "Y3 \<le> Y + N2 / 40" "B3 \<le> B + 3 * N2 / 200" "N3 \<le> N + 1/20"
    unfolding Y3_def B3_def N3_def using pos2 b2 by argo+
  obtain p3 q3 where b3: "0 \<le> p3" "p3 \<le> N3 / 2" "0 \<le> q3" "q3 \<le> 3 * N3 / 10"
    and k3: "OnePlant_call scenario_system [Y3, B3, N3] [0, 0, 0] (t + 1/2 * (1/10)) =
               [p3 - Y3 / 10, q3 - B3 / 10, 1 - N3 / 10 - p3 - q3]"
    using scenario_rhs [OF pos3] by blast
  define Y4 where "Y4 = Y + 1/10 * 0 * (p1 - Y / 10) + 1/10 * 0 * (p2 - Y2 / 10)
                          + 1/10 * 1 * (p3 - Y3 / 10)"
  define B4 where "B4 = B + 1/10 * 0 * (q1 - B / 10) + 1/10 * 0 * (q2 - B2 / 10)
                          + 1/10 * 1 * (q3 - B3 / 10)"
  define N4 where "N4 = N + 1/10 * 0 * (1 - N / 10 - p1 - q1)
                          + 1/10 * 0 * (1 - N2 / 10 - p2 - q2)
                          + 1/10 * 1 * (1 - N3 / 10 - p3 - q3)"
  have x4: "vec_add (vec_add (vec_add [Y, B, N] (vec_scale (1/10 * 0)
              [p1 - Y / 10, q1 - B / 10, 1 - N / 10 - p1 - q1]))
              (vec_scale (1/10 * 0) [p2 - Y2 / 10, q2 - B2 / 10, 1 - N2 / 10 - p2 - q2]))
              (vec_scale (1/10 * 1) [p3 - Y3 / 10, q3 - B3 / 10, 1 - N3 / 10 - p3 - q3])
            = [Y4, B4, N4]"
    by (simp only: vec3_axpy Y4_def B4_def N4_def)
  have pos4: "0 < Y4" "0 < B4" "0 < N4"
    unfolding Y4_def B4_def N4_def using pos1 pos2 pos3 up2 up3 b3 lo hi jr by argo+
  have up4: "Y4 \<le> Y + N3 / 20" "B4 \<le> B + 3 * N3 / 100" "N4 \<le> N + 1/10"
    unfolding Y4_def B4_def N4_def using pos3 b3 by argo+
  obtain p4 q4 where b4: "0 \<le> p4" "p4 \<le> N4 / 2" "0 \<le> q4" "q4 \<le> 3 * N4 / 10"
    and k4: "OnePlant_call scenario_system [Y4, B4, N4] [0, 0, 0] (t + 1 * (1/10)) =
               [p4 - Y4 / 10, q4 - B4 / 10, 1 - N4 / 10 - p4 - q4]"
    using scenario_rhs [OF pos4] by blast
  define Y' where "Y' = Y + 1/10 * (1/6) * (p1 - Y / 10) + 1/10 * (1/3) * (p2 - Y2 / 10)
                          + 1/10 * (1/3) * (p3 - Y3 / 10) + 1/10 * (1/6) * (p4 - Y4 / 10)"
  define B' where "B' = B + 1/10 * (1/6) * (q1 - B / 10) + 1/10 * (1/3) * (q2 - B2 / 10)
                          + 1/10 * (1/3) * (q3 - B3 / 10) + 1/10 * (1/6) * (q4 - B4 / 10)"
  define N' where "N' = N + 1/10 * (1/6) * (1 - N / 10 - p1 - q1)
                          + 1/10 * (1/3) * (1 - N2 / 10 - p2 - q2)
                          + 1/10 * (1/3) * (1 - N3 / 10 - p3 - q3)
                          + 1/10 * (1/6) * (1 - N4 / 10 - p4 - q4)"
  have xf: "vec_add (vec_add (vec_add (vec_add [Y, B, N] (vec_scale (1/10 * (1/6))
              [p1 - Y / 10, q1 - B / 10, 1 - N / 10 - p1 - q1]))
              (vec_scale (1/10 * (1/3)) [p2 - Y2 / 10, q2 - B2 / 10, 1 - N2 / 10 - p2 - q2]))
              (vec_scale (1/10 * (1/3)) [p3 - Y3 / 10, q3 - B3 / 10, 1 - N3 / 10 - p3 - q3]))
              (vec_scale (1/10 * (1/6)) [p4 - Y4 / 10, q4 - B4 / 10, 1 - N4 / 10 - p4 - q4])
            = [Y', B', N']"
    by (simp only: vec3_axpy Y'_def B'_def N'_def)
  have res: "snd (rk_do_step vec_add vec_scale rk4_tableau OnePlant_system scenario_system x t
                (1/10)) = [Y', B', N']"
    unfolding x rk4_OnePlant Let_def
    by (simp only: replicate_vec3 k1 x2 k2 x3 k3 x4 k4 xf)
  have sj: "real (Suc j) = real j + 1"
    by simp
  have Ylo: "1 - real (Suc j) / 50 \<le> Y'"
    unfolding Y'_def sj using pos1 up2 up3 up4 b1 b2 b3 b4 lo hi jr by argo
  have Blo: "1 - real (Suc j) / 50 \<le> B'"
    unfolding B'_def sj using pos1 up2 up3 up4 b1 b2 b3 b4 lo hi jr by argo
  have Nlo: "1 - 9 * real (Suc j) / 100 \<le> N'"
    unfolding N'_def sj using pos1 pos2 pos3 pos4 up2 up3 up4 b1 b2 b3 b4 lo hi jr by argo
  have Nhi: "N' \<le> 1 + real (Suc j) / 10"
    unfolding N'_def sj using pos1 pos2 pos3 pos4 b1 b2 b3 b4 lo hi jr by argo
  from res Ylo Blo Nlo Nhi show ?thesis
    by (simp add: scenario_region_def)
qed


lemma visited_indexed:
  assumes step: "\<And>s x j t. j < K \<Longrightarrow> I s \<Longrightarrow> Q j x \<Longrightarrow>
       I (fst (st system s x t dt)) \<and> Q (Suc j) (snd (st system s x t dt))"
  shows "I s \<Longrightarrow> Q k x \<Longrightarrow> k + r \<le> K \<Longrightarrow> i \<le> r \<Longrightarrow>
         Q (k + i) (snd (visited st system start_time dt s x k r ! i))"
proof (induction r arbitrary: s x k i)
  case 0
  then show ?case by simp
next
  case (Suc r)
  show ?case
  proof (cases i)
    case 0
    with Suc.prems show ?thesis by simp
  next
    case (Suc i')
    obtain s' x' where st: "st system s x (start_time + real k * dt) dt = (s', x')"
      by (cases "st system s x (start_time + real k * dt) dt")
    from Suc.prems have "k < K" by simp
    from step [OF this Suc.prems(1,2), of "start_time + real k * dt"] st
    have "I s'" "Q (Suc k) x'"
      by simp_all
    moreover from Suc.prems Suc have "Suc k + r \<le> K" "i' \<le> r"
      by simp_all
    ultimately have "Q (Suc k + i') (snd (visited st system start_time dt s' x' (Suc k) r ! i'))"
      by (rule Suc.IH)
    with Suc st show ?thesis by simp
  qed
qed

lemma rk_step_keeps_OnePlant_system:
  "fst (rk_do_step add scale tab OnePlant_system s x t dt) = s"
  using rk_do_step_invariant
    [of "\<lambda>_. True" "\<lambda>_. True" add scale x dt "\<lambda>s'. s' = s" OnePlant_system s tab t]
  by (simp add: OnePlant_system_def)

lemma scenario_visited:
  assumes "i \<le> 10"
  shows "scenario_region i
           (snd (visited (rk_do_step vec_add vec_scale rk4_tableau) OnePlant_system 0 (1/10)
                   scenario_system [1, 1, 1] 0 10 ! i))"
proof -
  have "scenario_region (0 + i)
           (snd (visited (rk_do_step vec_add vec_scale rk4_tableau) OnePlant_system 0 (1/10)
                   scenario_system [1, 1, 1] 0 10 ! i))"
  proof (rule visited_indexed [where K = 10 and I = "\<lambda>s. s = scenario_system"])
    show "fst (rk_do_step vec_add vec_scale rk4_tableau OnePlant_system s x t (1/10))
            = scenario_system \<and>
          scenario_region (Suc j)
            (snd (rk_do_step vec_add vec_scale rk4_tableau OnePlant_system s x t (1/10)))"
      if "j < 10" "s = scenario_system" "scenario_region j x" for s x j t
      using that scenario_step [of j x t] by (simp add: rk_step_keeps_OnePlant_system)
    show "scenario_region 0 [1, 1, 1]"
      by (simp add: scenario_region_def)
  qed (use assms in simp_all)
  then show ?thesis by simp
qed

lemma scenario_region_positive:
  "j \<le> 10 \<Longrightarrow> scenario_region j x \<Longrightarrow> length x = 3 \<and> 0 < x ! 0 \<and> 0 < x ! 1 \<and> 0 < x ! 2"
proof -
  assume j: "j \<le> 10" and "scenario_region j x"
  then obtain Y B N where x: "x = [Y, B, N]"
    and lo: "1 - real j / 50 \<le> Y" "1 - real j / 50 \<le> B" "1 - 9 * real j / 100 \<le> N"
    by (auto simp: scenario_region_def)
  from j have "real j \<le> 10" by simp
  with lo have "0 < Y" "0 < B" "0 < N" by linarith+
  with x show ?thesis by simp
qed

text \<open>
  C7.  The constant-input entry point, run with the classical Runge-Kutta tableau on
  \<open>m = 0.1\<close>, \<open>R = 1\<close>, \<open>d_yp = 0.2\<close>, \<open>d_b0 = 0.05\<close>, \<open>d_bp = 0.1\<close>, \<open>g_yp = 0.3\<close>, \<open>g_b0 = 0.05\<close>,
  \<open>g_bp = 0.1\<close>, \<open>L_0 = 1\<close>, \<open>P_max = 5\<close>, \<open>q = 0.5\<close>, \<open>s_0 = 1\<close>, \<open>h = 2\<close>, \<open>f_0 = 1\<close>,
  \<open>F_tilde = 1\<close>, \<open>u = 2\<close>, \<open>dt = 0.1\<close>, \<open>max_t = 1\<close> and \<open>Y0 = B0 = N0 = 1\<close>, returns the
  sample of the initial state at \<open>t = 0\<close> and after it exactly ten recorded steps, at the
  times \<open>0.1, \<dots>, 1.0\<close>; in every row \<open>Y\<close>, \<open>B\<close> and \<open>N\<close> are positive.  Every value of the
  model is a real number, and the proof keeps the state of every stage of every step
  positive, so that every division of the right-hand side has a positive divisor: the
  values are finite.
\<close>

theorem scenario_run:
  "\<exists>M. one_plant_ode (rk_do_step vec_add vec_scale rk4_tableau)
          (1/10) 1 (1/5) (1/20) (1/10) (3/10) (1/20) (1/10) 1 5 (1/2) 1 2 1 1 2 (1/10) 1 1 1 1
        = Some M \<and>
      nrow M = 11 \<and>
      map hd (cells M) = [0, 1/10, 2/10, 3/10, 4/10, 5/10, 6/10, 7/10, 8/10, 9/10, 1] \<and>
      take 4 (hd (cells M)) = [0, 1, 1, 1] \<and>
      (\<forall>row\<in>set (cells M). 0 < row ! 1 \<and> 0 < row ! 2 \<and> 0 < row ! 3)"
proof -
  let ?st = "rk_do_step vec_add vec_scale rk4_tableau"
  let ?vs = "visited ?st OnePlant_system 0 (1/10) scenario_system [1, 1, 1] 0 10"
  let ?obs = "\<lparr> obs_data = map snd ?vs, obs_time = map (\<lambda>j. real j * (1/10)) [0..<Suc 10] \<rparr>"
  let ?row = "one_plant_ode_row ?obs 3 5 (1/2) (std_pow 1 2) 2 (std_pow 1 2) 2"
  have "last ?vs \<in> set ?vs"
    by (rule last_in_set) (rule visited_nonempty)
  with visited_lengths [of rk4_tableau 0 "1/10" scenario_system "[1, 1, 1]" 0 10]
  have len: "length (snd (last ?vs)) = 3"
    by auto
  have "(0::real) < 1/10" by simp
  from one_plant_ode_result [OF this, of ?st
      "1/10" 1 "1/5" "1/20" "1/10" "3/10" "1/20" "1/10" 1 5 "1/2" 1 2 1 1 2 1 1 1 1]
  have res: "one_plant_ode ?st
          (1/10) 1 (1/5) (1/20) (1/10) (3/10) (1/20) (1/10) 1 5 (1/2) 1 2 1 1 2 (1/10) 1 1 1 1
        = Some \<lparr> nrow = 11, ncol = 5, colnames = [''t'', ''Y'', ''B'', ''N'', ''P''],
                 cells = map ?row [0..<Suc 10] \<rparr>"
    by (simp add: Let_def count_tenth len scenario_system_def [symmetric] del: upt_Suc)
  have times: "map hd (map ?row [0..<Suc 10])
      = [0, 1/10, 2/10, 3/10, 4/10, 5/10, 6/10, 7/10, 8/10, 9/10, 1]"
    by (simp add: hd_one_plant_ode_row upt_conv_Cons)
  have state: "?row i ! 1 = snd (?vs ! i) ! 0 \<and> ?row i ! 2 = snd (?vs ! i) ! 1 \<and>
               ?row i ! 3 = snd (?vs ! i) ! 2" if "i \<le> 10" for i
    using that by (simp add: one_plant_ode_row_def Let_def upt_3 length_visited)
  have pos: "0 < ?row i ! 1 \<and> 0 < ?row i ! 2 \<and> 0 < ?row i ! 3" if "i \<le> 10" for i
    using state [OF that] scenario_region_positive [OF that scenario_visited [OF that]]
    by simp
  have first: "take 4 (hd (map ?row [0..<Suc 10])) = [0, 1, 1, 1]"
    by (simp add: upt_conv_Cons one_plant_ode_row_def Let_def upt_3 visited_first length_visited)
  have "\<forall>row\<in>set (map ?row [0..<Suc 10]). 0 < row ! 1 \<and> 0 < row ! 2 \<and> 0 < row ! 3"
    using pos by (auto simp del: upt_Suc)
  with res times first show ?thesis
    by (simp del: upt_Suc)
qed

theorem scenario_run_witness:
  "\<exists>M. one_plant_ode (rk_do_step vec_add vec_scale rk4_tableau)
          (1/10) 1 (1/5) (1/20) (1/10) (3/10) (1/20) (1/10) 1 5 (1/2) 1 2 1 1 2 (1/10) 1 1 1 1
        = Some M \<and> cells M \<noteq> [] \<and>
      0 < last (cells M) ! 1 \<and> 0 < last (cells M) ! 2 \<and> 0 < last (cells M) ! 3"
proof -
  from scenario_run obtain M where M: "one_plant_ode (rk_do_step vec_add vec_scale rk4_tableau)
          (1/10) 1 (1/5) (1/20) (1/10) (3/10) (1/20) (1/10) 1 5 (1/2) 1 2 1 1 2 (1/10) 1 1 1 1
        = Some M"
    and t: "map hd (cells M) = [0, 1/10, 2/10, 3/10, 4/10, 5/10, 6/10, 7/10, 8/10, 9/10, 1]"
    and p: "\<forall>row\<in>set (cells M). 0 < row ! 1 \<and> 0 < row ! 2 \<and> 0 < row ! 3"
    by (elim exE conjE)
  from t have ne: "cells M \<noteq> []" by auto
  then have "last (cells M) \<in> set (cells M)" by (rule last_in_set)
  with p M ne show ?thesis by blast
qed

end
